theory Spec2Isabelle
  imports Complex_Main "HOL-Library.Multiset"
begin

chapter \<open>Product import and export strategies\<close>

text \<open>
  A shallow embedding of the two batch-job strategies for products. The import strategy
  classifies the parsed rows of a CSV file into four batches of operations, stages the
  batches in Redis and applies them in four phases. The export strategy discovers the
  shape of the dynamic columns, builds the header and writes the products page by page.
  The definitions follow the TypeScript sources; the entity services, the repositories and
  the listing service are parameters.
\<close>

section \<open>JavaScript values of parsed rows\<close>

text \<open>
  A parsed row (\<open>TParsedRowData\<close>) is a JavaScript object from column paths such as
  \<open>product.handle\<close> to text cells or to arrays of sub-records. The CSV parser yields
  text, so scalars are strings; \<open>undefined\<close> and \<open>null\<close> are values of their own, because
  the code tests for them and JSON staging produces them. Objects keep their keys in
  insertion order, so an object is an association list.
\<close>

datatype jsval =
    JUndef
  | JNull
  | JStr string
  | JArr "jsval list"
  | JObj "(string \<times> jsval) list"

type_synonym row = "(string \<times> jsval) list"

datatype errorType = INVALID_DATA

datatype error =
    MedusaError errorType string
  | TypeError
  | ServiceError string

text \<open>Truthiness, as \<open>if (v)\<close>, \<open>!v\<close> and \<open>v || w\<close> decide it.\<close>

fun truthy :: "jsval \<Rightarrow> bool" where
  "truthy JUndef = False"
| "truthy JNull = False"
| "truthy (JStr s) = (s \<noteq> [])"
| "truthy (JArr xs) = True"
| "truthy (JObj ps) = True"

text \<open>\<open>row[k]\<close>: the value stored under the key, \<open>undefined\<close> when the key is absent.\<close>

definition rowGet :: "row \<Rightarrow> string \<Rightarrow> jsval" where
  "rowGet r k = (case map_of r k of None \<Rightarrow> JUndef | Some v \<Rightarrow> v)"

text \<open>\<open>row[k] = v\<close>: an existing key keeps its position, a new key goes last.\<close>

fun rowSet :: "row \<Rightarrow> string \<Rightarrow> jsval \<Rightarrow> row" where
  "rowSet [] k v = [(k, v)]"
| "rowSet ((k', v') # r) k v = (if k' = k then (k, v) # r else (k', v') # rowSet r k v)"

text \<open>
  \<open>v.name\<close> for a named field (none of the names used is an index, \<open>length\<close> or a
  built-in method): reading a field of \<open>undefined\<close> or \<open>null\<close> throws a TypeError, a
  string or an array has no such field.
\<close>

fun getField :: "jsval \<Rightarrow> string \<Rightarrow> error + jsval" where
  "getField JUndef k = Inl TypeError"
| "getField JNull k = Inl TypeError"
| "getField (JStr s) k = Inr JUndef"
| "getField (JArr xs) k = Inr JUndef"
| "getField (JObj ps) k = Inr (rowGet ps k)"

text \<open>\<open>Array.prototype.join\<close> on strings.\<close>

fun joinWith :: "string \<Rightarrow> string list \<Rightarrow> string" where
  "joinWith sep [] = []"
| "joinWith sep [x] = x"
| "joinWith sep (x # y # ys) = x @ sep @ joinWith sep (y # ys)"

text \<open>
  ToString, as a template literal and a property key apply it: an array is its elements
  joined by commas, with \<open>undefined\<close> and \<open>null\<close> elements left empty.
\<close>

fun jsToString :: "jsval \<Rightarrow> string" where
  "jsToString JUndef = ''undefined''"
| "jsToString JNull = ''null''"
| "jsToString (JStr s) = s"
| "jsToString (JArr xs) =
     joinWith '','' (map (\<lambda>x. if x = JUndef \<or> x = JNull then [] else jsToString x) xs)"
| "jsToString (JObj ps) = ''[object Object]''"

text \<open>
  The values a \<open>for (const p of v)\<close> loop visits: the elements of an array, the
  characters of a string; anything else is not iterable.
\<close>

fun iterate :: "jsval \<Rightarrow> error + jsval list" where
  "iterate (JArr xs) = Inr xs"
| "iterate (JStr s) = Inr (map (\<lambda>c. JStr [c]) s)"
| "iterate v = Inl TypeError"

text \<open>Whether \<open>v.length\<close> is truthy; reading it from \<open>undefined\<close> or \<open>null\<close> throws.\<close>

fun lengthTruthy :: "jsval \<Rightarrow> error + bool" where
  "lengthTruthy JUndef = Inl TypeError"
| "lengthTruthy JNull = Inl TypeError"
| "lengthTruthy (JStr s) = Inr (s \<noteq> [])"
| "lengthTruthy (JArr xs) = Inr (xs \<noteq> [])"
| "lengthTruthy (JObj ps) = Inr (truthy (rowGet ps ''length''))"

text \<open>
  The property names every plain object \<open>{}\<close> inherits from \<open>Object.prototype\<close>. A
  lookup \<open>obj[k]\<close> on a plain object finds them (functions, or the prototype itself:
  all truthy) although the object has no such key of its own.
\<close>

definition objectPrototypeKeys :: "string list" where
  "objectPrototypeKeys =
     [''constructor'', ''__defineGetter__'', ''__defineSetter__'', ''hasOwnProperty'',
      ''__lookupGetter__'', ''__lookupSetter__'', ''isPrototypeOf'',
      ''propertyIsEnumerable'', ''toString'', ''valueOf'', ''__proto__'',
      ''toLocaleString'']"

section \<open>Operation classifier\<close>

record region =
  region_id :: string
  region_name :: string
  region_currency_code :: string

text \<open>
  \<open>regionRepo.findOne({ where: { name } })\<close>: the region entity of that name, nothing
  when there is none, or the error of the repository. The repository is not part of the
  strategy, so it is a parameter.
\<close>

type_synonym regionRepo = "jsval \<Rightarrow> error + region option"

text \<open>One pass of the loop of \<open>handleVariantPrices\<close>: the record built from price \<open>p\<close>.\<close>

definition priceRecord :: "regionRepo \<Rightarrow> jsval \<Rightarrow> error + jsval" where
  "priceRecord regionRepo p =
     (case getField p ''amount'' of
        Inl e \<Rightarrow> Inl e
      | Inr amount \<Rightarrow>
          (case getField p ''regionName'' of
             Inl e \<Rightarrow> Inl e
           | Inr regionName \<Rightarrow>
               if truthy regionName then
                 (case regionRepo regionName of
                    Inl e \<Rightarrow> Inl e
                  | Inr None \<Rightarrow>
                      Inl (MedusaError INVALID_DATA
                             (''Trying to set a price for a region '' @ jsToString regionName
                                @ '' that doesn'' @ [CHR 0x27] @ ''t exist''))
                  | Inr (Some r) \<Rightarrow>
                      Inr (JObj [(''amount'', amount), (''region_id'', JStr (region_id r))]))
               else
                 (case getField p ''currency_code'' of
                    Inl e \<Rightarrow> Inl e
                  | Inr currency_code \<Rightarrow>
                      Inr (JObj [(''amount'', amount), (''currency_code'', currency_code)]))))"

fun pricesLoop :: "regionRepo \<Rightarrow> jsval list \<Rightarrow> jsval list \<Rightarrow> error + jsval list" where
  "pricesLoop regionRepo [] prices = Inr prices"
| "pricesLoop regionRepo (p # ps) prices =
     (case priceRecord regionRepo p of
        Inl e \<Rightarrow> Inl e
      | Inr record \<Rightarrow> pricesLoop regionRepo ps (prices @ [record]))"

definition handleVariantPrices :: "regionRepo \<Rightarrow> row \<Rightarrow> error + row" where
  "handleVariantPrices regionRepo r =
     (case iterate (rowGet r ''variant.prices'') of
        Inl e \<Rightarrow> Inl e
      | Inr ps \<Rightarrow>
          (case pricesLoop regionRepo ps [] of
             Inl e \<Rightarrow> Inl e
           | Inr prices \<Rightarrow> Inr (rowSet r ''variant.prices'' (JArr prices))))"

text \<open>
  The state of the loop of \<open>getImportInstructions\<close>: the own keys of \<open>seenProducts\<close>
  and the four batches.
\<close>

record importOps =
  productsCreate :: "row list"
  variantsCreate :: "row list"
  productsUpdate :: "row list"
  variantsUpdate :: "row list"

record classifierState = importOps +
  seenProducts :: "string list"

text \<open>
  \<open>seenProducts[k]\<close> on the plain object \<open>seenProducts = {}\<close>: truthy for a key that was
  set to \<open>true\<close> and for every inherited property name.
\<close>

definition seenLookup :: "string list \<Rightarrow> string \<Rightarrow> bool" where
  "seenLookup seen k = (k \<in> set seen \<or> k \<in> set objectPrototypeKeys)"

text \<open>
  Lines 211 to 223 of the loop body, on the row as price resolution left it. The batches
  hold references to the row object, so the stamp
  \<open>row["product.profile_id"] = shippingProfile\<close>, made after the row was pushed to a
  variant batch, shows in that batch too: both batches receive the row as it is at the
  end of the pass. The test of \<open>row["variant.id"]\<close> is made before the stamp.
\<close>

definition routeRow :: "jsval \<Rightarrow> classifierState \<Rightarrow> row \<Rightarrow> classifierState" where
  "routeRow shippingProfile st r =
     (let isUpdate = truthy (rowGet r ''variant.id'');
          handle = jsToString (rowGet r ''product.handle'');
          first = \<not> seenLookup (seenProducts st) handle;
          r' = (if first then rowSet r ''product.profile_id'' shippingProfile else r);
          st1 = (if isUpdate then st\<lparr>variantsUpdate := variantsUpdate st @ [r']\<rparr>
                 else st\<lparr>variantsCreate := variantsCreate st @ [r']\<rparr>)
      in if first then
           (if truthy (rowGet r' ''product.product.id'')
            then st1\<lparr>productsUpdate := productsUpdate st1 @ [r']\<rparr>
            else st1\<lparr>productsCreate := productsCreate st1 @ [r']\<rparr>)
           \<lparr>seenProducts := seenProducts st1 @ [handle]\<rparr>
         else st1)"

text \<open>One pass of the loop: price resolution when the price list is not empty, then routing.\<close>

definition classifyRow ::
  "regionRepo \<Rightarrow> jsval \<Rightarrow> classifierState \<Rightarrow> row \<Rightarrow> error + classifierState" where
  "classifyRow regionRepo shippingProfile st r =
     (case lengthTruthy (rowGet r ''variant.prices'') of
        Inl e \<Rightarrow> Inl e
      | Inr hasPrices \<Rightarrow>
          (case (if hasPrices then handleVariantPrices regionRepo r else Inr r) of
             Inl e \<Rightarrow> Inl e
           | Inr r1 \<Rightarrow> Inr (routeRow shippingProfile st r1)))"

fun classifyLoop ::
  "regionRepo \<Rightarrow> jsval \<Rightarrow> row list \<Rightarrow> classifierState \<Rightarrow> error + classifierState" where
  "classifyLoop regionRepo shippingProfile [] st = Inr st"
| "classifyLoop regionRepo shippingProfile (r # rs) st =
     (case classifyRow regionRepo shippingProfile st r of
        Inl e \<Rightarrow> Inl e
      | Inr st' \<Rightarrow> classifyLoop regionRepo shippingProfile rs st')"

definition getImportInstructions ::
  "regionRepo \<Rightarrow> jsval \<Rightarrow> row list \<Rightarrow> error + importOps" where
  "getImportInstructions regionRepo shippingProfile csvData =
     (case classifyLoop regionRepo shippingProfile csvData
             \<lparr>productsCreate = [], variantsCreate = [], productsUpdate = [],
              variantsUpdate = [], seenProducts = []\<rparr> of
        Inl e \<Rightarrow> Inl e
      | Inr st \<Rightarrow>
          Inr \<lparr>productsCreate = productsCreate st, variantsCreate = variantsCreate st,
               productsUpdate = productsUpdate st, variantsUpdate = variantsUpdate st\<rparr>)"

section \<open>Column schema: the region price reducer\<close>

text \<open>\<open>s.split(sep)\<close> for a separator of one character: every occurrence splits.\<close>

fun splitOn :: "char \<Rightarrow> string \<Rightarrow> string list" where
  "splitOn sep [] = [[]]"
| "splitOn sep (c # cs) =
     (if c = sep then [] # splitOn sep cs
      else (case splitOn sep cs of [] \<Rightarrow> [[c]] | w # ws \<Rightarrow> (c # w) # ws))"

text \<open>\<open>xs[i]\<close> on an array of strings: \<open>undefined\<close> out of range.\<close>

definition strAt :: "string list \<Rightarrow> nat \<Rightarrow> jsval" where
  "strAt xs i = (if i < length xs then JStr (xs ! i) else JUndef)"

text \<open>
  The reducer of the column descriptor \<open>Price Region\<close>, called by the parser for a
  header that matches \<open>/Price .* \[([A-Z]{2,4})\]/\<close>. The list is created when the row
  has none yet; \<open>push\<close> exists on arrays only.
\<close>

definition priceRegionReducer :: "row \<Rightarrow> string \<Rightarrow> jsval \<Rightarrow> error + row" where
  "priceRegionReducer builtLine key v =
     (let cur = rowGet builtLine ''variant.prices'';
          prices = (if truthy cur then cur else JArr []);
          builtLine1 = rowSet builtLine ''variant.prices'' prices
      in if v = JUndef \<or> v = JNull then Inr builtLine1
         else
           (let regionName = strAt (splitOn CHR '' '' key) 1
            in case prices of
                 JArr xs \<Rightarrow>
                   Inr (rowSet builtLine1 ''variant.prices''
                          (JArr (xs @ [JObj [(''amount'', v), (''regionName'', regionName)]])))
               | _ \<Rightarrow> Inl TypeError))"

section \<open>Staging store\<close>

datatype OperationType = ProductCreate | ProductUpdate | VariantCreate | VariantUpdate

fun opTag :: "OperationType \<Rightarrow> string" where
  "opTag ProductCreate = ''PRODUCT_CREATE''"
| "opTag ProductUpdate = ''PRODUCT_UPDATE''"
| "opTag VariantCreate = ''VARIANT_CREATE''"
| "opTag VariantUpdate = ''VARIANT_UPDATE''"

text \<open>
  What \<open>JSON.parse(JSON.stringify(v))\<close> returns: a property whose value is \<open>undefined\<close>
  is left out, an \<open>undefined\<close> array element becomes \<open>null\<close>.
\<close>

fun jsonClone :: "jsval \<Rightarrow> jsval" where
  "jsonClone JUndef = JNull"
| "jsonClone JNull = JNull"
| "jsonClone (JStr s) = JStr s"
| "jsonClone (JArr xs) = JArr (map jsonClone xs)"
| "jsonClone (JObj ps) =
     JObj (map (\<lambda>p. (fst p, jsonClone (snd p))) (filter (\<lambda>p. snd p \<noteq> JUndef) ps))"

definition jsonCloneRow :: "row \<Rightarrow> row" where
  "jsonCloneRow r = map (\<lambda>p. (fst p, jsonClone (snd p))) (filter (\<lambda>p. snd p \<noteq> JUndef) r)"

text \<open>
  The Redis client is a library outside the repository. The three commands the strategy
  issues are modelled by their documented meaning: \<open>SET key value EX seconds\<close> stores
  the value until \<open>seconds\<close> have passed, \<open>GET key\<close> returns a value that has not
  expired, \<open>DEL key\<close> removes the entry stored under exactly that key (the command takes
  key names, not patterns) and returns the number of entries removed. A stored value is
  kept in parsed form, as the batch that \<open>JSON.parse\<close> gives back.
\<close>

type_synonym redis = "string \<Rightarrow> (row list \<times> nat) option"

definition redisSet :: "redis \<Rightarrow> nat \<Rightarrow> string \<Rightarrow> row list \<Rightarrow> nat \<Rightarrow> redis" where
  "redisSet store now key v seconds = store(key \<mapsto> (v, now + seconds))"

definition redisGet :: "redis \<Rightarrow> nat \<Rightarrow> string \<Rightarrow> row list option" where
  "redisGet store now key =
     (case store key of
        None \<Rightarrow> None
      | Some (v, expiry) \<Rightarrow> if now < expiry then Some v else None)"

definition redisDel :: "redis \<Rightarrow> nat \<Rightarrow> string \<Rightarrow> redis \<times> nat" where
  "redisDel store now key =
     (case redisGet store now key of
        None \<Rightarrow> (store(key := None), 0)
      | Some v \<Rightarrow> (store(key := None), 1))"

definition opsOf :: "importOps \<Rightarrow> OperationType \<Rightarrow> row list" where
  "opsOf results op =
     (case op of
        ProductCreate \<Rightarrow> productsCreate results
      | VariantCreate \<Rightarrow> variantsCreate results
      | ProductUpdate \<Rightarrow> productsUpdate results
      | VariantUpdate \<Rightarrow> variantsUpdate results)"

text \<open>
  \<open>setImportDataToRedis\<close>: the keys of the result object in the order it was built, an
  empty batch is not written.
\<close>

fun setLoop :: "nat \<Rightarrow> string \<Rightarrow> importOps \<Rightarrow> OperationType list \<Rightarrow> redis \<Rightarrow> redis" where
  "setLoop now batchJobId results [] store = store"
| "setLoop now batchJobId results (op # ops) store =
     setLoop now batchJobId results ops
       (if opsOf results op \<noteq> [] then
          redisSet store now (''pij_'' @ batchJobId @ '':'' @ opTag op)
            (map jsonCloneRow (opsOf results op)) (60 * 60)
        else store)"

definition setImportDataToRedis :: "redis \<Rightarrow> nat \<Rightarrow> string \<Rightarrow> importOps \<Rightarrow> redis" where
  "setImportDataToRedis store now batchJobId results =
     setLoop now batchJobId results
       [ProductCreate, VariantCreate, ProductUpdate, VariantUpdate] store"

definition getImportDataFromRedis :: "redis \<Rightarrow> nat \<Rightarrow> string \<Rightarrow> OperationType \<Rightarrow> row list" where
  "getImportDataFromRedis store now batchJobId op =
     (case redisGet store now (''pij_'' @ batchJobId @ '':'' @ opTag op) of
        None \<Rightarrow> []
      | Some rows \<Rightarrow> rows)"

definition clearRedisRecords :: "redis \<Rightarrow> nat \<Rightarrow> string \<Rightarrow> redis \<times> nat" where
  "clearRedisRecords store now batchJobId = redisDel store now (''pij_'' @ batchJobId @ '':*'')"

section \<open>Transactional batch applier\<close>

definition BATCH_SIZE :: nat where
  "BATCH_SIZE = 100"

text \<open>Whether a string starts with another, and the two halves of \<open>s.split(sep)[1]\<close>.\<close>

definition startsWith :: "string \<Rightarrow> string \<Rightarrow> bool" where
  "startsWith p s = (take (length p) s = p)"

fun afterFirst :: "string \<Rightarrow> string \<Rightarrow> string option" where
  "afterFirst sep [] = (if sep = [] then Some [] else None)"
| "afterFirst sep (c # cs) =
     (if startsWith sep (c # cs) then Some (drop (length sep) (c # cs))
      else afterFirst sep cs)"

fun beforeFirst :: "string \<Rightarrow> string \<Rightarrow> string" where
  "beforeFirst sep [] = []"
| "beforeFirst sep (c # cs) =
     (if startsWith sep (c # cs) then [] else c # beforeFirst sep cs)"

text \<open>
  \<open>pickObjectPropsByRegex\<close> with a regular expression that is a literal prefix text
  (\<open>/product\./\<close>, \<open>/variant\./\<close>): the entries whose key contains the text, in
  order.
\<close>

definition pickObjectPropsByRegex :: "row \<Rightarrow> string \<Rightarrow> row" where
  "pickObjectPropsByRegex data lit = filter (\<lambda>p. afterFirst lit (fst p) \<noteq> None) data"

text \<open>
  The loop \<open>ret[k.split(lit)[1]] = productData[k]\<close>: the new key is the text between
  the first and the second occurrence of the prefix text.
\<close>

fun stripPrefixLoop :: "string \<Rightarrow> row \<Rightarrow> row \<Rightarrow> row" where
  "stripPrefixLoop lit [] ret = ret"
| "stripPrefixLoop lit ((k, v) # ps) ret =
     stripPrefixLoop lit ps
       (case afterFirst lit k of
          None \<Rightarrow> ret
        | Some rest \<Rightarrow> rowSet ret (beforeFirst lit rest) v)"

definition transformProductData :: "row \<Rightarrow> row" where
  "transformProductData data =
     stripPrefixLoop ''product.'' (pickObjectPropsByRegex data ''product.'') []"

definition transformVariantData :: "row \<Rightarrow> row" where
  "transformVariantData data =
     (let ret = stripPrefixLoop ''variant.'' (pickObjectPropsByRegex data ''variant.'') [];
          ret1 = rowSet ret ''product.handle'' (rowGet data ''product.handle'')
      in rowSet ret1 ''product.options'' (rowGet data ''product.options''))"

text \<open>Decimal digits of an array index, as a property key.\<close>

fun showNat :: "nat \<Rightarrow> string" where
  "showNat n =
     (if n < 10 then [char_of (48 + n)]
      else showNat (n div 10) @ [char_of (48 + n mod 10)])"

declare showNat.simps [simp del]

text \<open>\<open>{ ...o }\<close>: the own enumerable properties of \<open>o\<close>; none for \<open>undefined\<close> and \<open>null\<close>.\<close>

fun spread :: "jsval \<Rightarrow> row" where
  "spread (JObj ps) = ps"
| "spread (JArr xs) = map (\<lambda>i. (showNat i, xs ! i)) [0..<length xs]"
| "spread (JStr s) = map (\<lambda>i. (showNat i, JStr [s ! i])) [0..<length s]"
| "spread v = []"

text \<open>\<open>a === b\<close> on values from different sources: strings by content, objects never.\<close>

definition strictEq :: "jsval \<Rightarrow> jsval \<Rightarrow> bool" where
  "strictEq a b =
     (case (a, b) of
        (JUndef, JUndef) \<Rightarrow> True
      | (JNull, JNull) \<Rightarrow> True
      | (JStr x, JStr y) \<Rightarrow> x = y
      | _ \<Rightarrow> False)"

text \<open>\<open>xs[i]\<close> on an array: \<open>undefined\<close> out of range.\<close>

definition arrAt :: "jsval list \<Rightarrow> nat \<Rightarrow> jsval" where
  "arrAt xs i = (if i < length xs then xs ! i else JUndef)"


text \<open>
  The entity services and repositories the applier calls. They live outside the strategy,
  so they are parameters: each acts on the state \<open>'w\<close> of the entity store and either
  fails or returns. A \<open>findOne\<close> returns the entity, or \<open>undefined\<close> when there is none.
\<close>

record 'w services =
  productServiceCreate :: "row \<Rightarrow> 'w \<Rightarrow> error + 'w"
  productServiceUpdate :: "jsval \<Rightarrow> row \<Rightarrow> 'w \<Rightarrow> error + 'w"
  productRepoFindOne :: "jsval \<Rightarrow> 'w \<Rightarrow> error + jsval"
  variantServiceCreate :: "jsval \<Rightarrow> row \<Rightarrow> 'w \<Rightarrow> error + 'w"
  variantServiceUpdate :: "jsval \<Rightarrow> row \<Rightarrow> 'w \<Rightarrow> error + 'w"
  optionRepoFindOne :: "jsval \<Rightarrow> 'w \<Rightarrow> error + jsval"

record importJobContext =
  ctx_total :: "nat option"
  ctx_progress :: "nat option"
  ctx_fileKey :: string

text \<open>
  The applier's state: the counter field of the strategy, the entity store, the job's
  context, and the \<open>progress\<close> value of every call of \<open>batchJobService.update\<close>, in the
  order the calls are issued.
\<close>

record 'w applierState =
  processedCounter :: nat
  world :: 'w
  jobContext :: importJobContext
  contextUpdates :: "nat option list"

text \<open>
  Modelled from the spec: \<open>BatchJobService.update(id, { context: { progress } })\<close>, whose
  code is not among the sources. The job context carries \<open>total\<close> and \<open>progress\<close>; the
  update sets the fields it is given and keeps the others.
\<close>

definition batchJobUpdateProgress :: "'w applierState \<Rightarrow> nat option \<Rightarrow> 'w applierState" where
  "batchJobUpdateProgress st v =
     st\<lparr>jobContext := (jobContext st)\<lparr>ctx_progress := v\<rparr>,
        contextUpdates := contextUpdates st @ [v]\<rparr>"

definition updateProgress :: "'w applierState \<Rightarrow> 'w applierState" where
  "updateProgress st =
     (let st1 = st\<lparr>processedCounter := processedCounter st + 1\<rparr>
      in if processedCounter st1 mod BATCH_SIZE \<noteq> 0 then st1
         else batchJobUpdateProgress st1 (Some (processedCounter st1)))"

definition finalize :: "'w applierState \<Rightarrow> 'w applierState" where
  "finalize st = batchJobUpdateProgress st (ctx_total (jobContext st))"

text \<open>
  The diagnostic of \<open>handleImportError_\<close>: a template literal of five lines, the four
  fields indented by six spaces. (The names \<open>handleImportError_\<close>, \<open>updateProgress_\<close> and
  \<open>finalize_\<close> of the source end with an underscore, which the name of a constant
  cannot.)
\<close>

definition importErrorMessage :: "row \<Rightarrow> string" where
  "importErrorMessage r =
     ''Error while processing row with:'' @ [CHR 0x0A] @
     ''      product id: '' @ jsToString (rowGet r ''product.id'') @ '','' @ [CHR 0x0A] @
     ''      product handle: '' @ jsToString (rowGet r ''product.handle'') @ '','' @ [CHR 0x0A] @
     ''      variant id: '' @ jsToString (rowGet r ''variant.id'') @ [CHR 0x0A] @
     ''      variant sku: '' @ jsToString (rowGet r ''variant.sku'')"

definition handleImportError :: "row \<Rightarrow> error" where
  "handleImportError r = MedusaError INVALID_DATA (importErrorMessage r)"

text \<open>The guarded part of each loop body: what runs inside \<open>try\<close>.\<close>

definition createProductBody :: "'w services \<Rightarrow> row \<Rightarrow> 'w \<Rightarrow> error + 'w" where
  "createProductBody svc productOp w = productServiceCreate svc (transformProductData productOp) w"

definition updateProductBody :: "'w services \<Rightarrow> row \<Rightarrow> 'w \<Rightarrow> error + 'w" where
  "updateProductBody svc productOp w =
     productServiceUpdate svc (rowGet productOp ''product.id'') (transformProductData productOp) w"

fun mapE :: "('a \<Rightarrow> error + 'b) \<Rightarrow> 'a list \<Rightarrow> error + 'b list" where
  "mapE f [] = Inr []"
| "mapE f (x # xs) =
     (case f x of
        Inl e \<Rightarrow> Inl e
      | Inr y \<Rightarrow> (case mapE f xs of Inl e \<Rightarrow> Inl e | Inr ys \<Rightarrow> Inr (y # ys)))"

text \<open>\<open>options.find(o => o.title === variantOption.title)\<close>.\<close>

fun findByTitle :: "jsval list \<Rightarrow> jsval \<Rightarrow> error + jsval" where
  "findByTitle [] variantOption = Inr JUndef"
| "findByTitle (createdProductOption # rest) variantOption =
     (case getField createdProductOption ''title'' of
        Inl e \<Rightarrow> Inl e
      | Inr t \<Rightarrow>
          (case getField variantOption ''title'' of
             Inl e \<Rightarrow> Inl e
           | Inr t' \<Rightarrow>
               if strictEq t t' then Inr createdProductOption
               else findByTitle rest variantOption))"

definition findOptionId :: "jsval \<Rightarrow> jsval \<Rightarrow> error + jsval" where
  "findOptionId product variantOption =
     (case getField product ''options'' of
        Inl e \<Rightarrow> Inl e
      | Inr (JArr options) \<Rightarrow>
          (case findByTitle options variantOption of
             Inl e \<Rightarrow> Inl e
           | Inr found \<Rightarrow> getField found ''id'')
      | Inr other \<Rightarrow> Inl TypeError)"

text \<open>\<open>v?.map(f) || []\<close>: nothing to map for \<open>undefined\<close> and \<open>null\<close>; only an array has \<open>map\<close>.\<close>

definition optionIdsOf :: "jsval \<Rightarrow> jsval \<Rightarrow> error + jsval list" where
  "optionIdsOf product productOptions =
     (case productOptions of
        JUndef \<Rightarrow> Inr []
      | JNull \<Rightarrow> Inr []
      | JArr variantOptions \<Rightarrow> mapE (findOptionId product) variantOptions
      | other \<Rightarrow> Inl TypeError)"

definition withOptionIds :: "jsval \<Rightarrow> jsval list \<Rightarrow> error + jsval" where
  "withOptionIds variantOptions optionIds =
     (case variantOptions of
        JUndef \<Rightarrow> Inr (JArr [])
      | JNull \<Rightarrow> Inr (JArr [])
      | JArr os \<Rightarrow>
          Inr (JArr (map (\<lambda>index. JObj (rowSet (spread (os ! index)) ''option_id''
                                          (arrAt optionIds index)))
                       [0..<length os]))
      | other \<Rightarrow> Inl TypeError)"

definition createVariantBody :: "'w services \<Rightarrow> row \<Rightarrow> 'w \<Rightarrow> error + 'w" where
  "createVariantBody svc variantOp w =
     (let variant = transformVariantData variantOp
      in case productRepoFindOne svc (rowGet variantOp ''product.handle'') w of
           Inl e \<Rightarrow> Inl e
         | Inr product \<Rightarrow>
             (case optionIdsOf product (rowGet variantOp ''product.options'') of
                Inl e \<Rightarrow> Inl e
              | Inr optionIds \<Rightarrow>
                  (case withOptionIds (rowGet variant ''options'') optionIds of
                     Inl e \<Rightarrow> Inl e
                   | Inr options \<Rightarrow>
                       variantServiceCreate svc product (rowSet variant ''options'' options) w)))"

text \<open>
  One pass of the loop of \<open>prepareVariantOptions\<close>: the option entry with its
  \<open>option_id\<close> set. The class body is strict code, so setting a property on a string
  throws; a property set on an entry that is an array is not represented, the entry
  stays as it is.
\<close>

definition prepareOption :: "'w services \<Rightarrow> 'w \<Rightarrow> jsval \<Rightarrow> error + jsval" where
  "prepareOption svc w entry =
     (case getField entry ''_title'' of
        Inl e \<Rightarrow> Inl e
      | Inr t \<Rightarrow>
          (case optionRepoFindOne svc t w of
             Inl e \<Rightarrow> Inl e
           | Inr found \<Rightarrow>
               (case getField found ''id'' of
                  Inl e \<Rightarrow> Inl e
                | Inr i \<Rightarrow>
                    (case entry of
                       JObj ps \<Rightarrow> Inr (JObj (rowSet ps ''option_id'' i))
                     | JArr xs \<Rightarrow> Inr (JArr xs)
                     | other \<Rightarrow> Inl TypeError))))"

text \<open>
  \<open>prepareVariantOptions\<close> changes the entries of \<open>variantOp["variant.options"]\<close> in
  place; the row is returned with the changed entries. The characters of a string are
  values of their own, not parts of the row.
\<close>

definition prepareVariantOptions :: "'w services \<Rightarrow> 'w \<Rightarrow> row \<Rightarrow> error + row" where
  "prepareVariantOptions svc w variantOp =
     (let cur = rowGet variantOp ''variant.options''
      in if \<not> truthy cur then Inr variantOp
         else
           (case iterate cur of
              Inl e \<Rightarrow> Inl e
            | Inr os \<Rightarrow>
                (case mapE (prepareOption svc w) os of
                   Inl e \<Rightarrow> Inl e
                 | Inr os' \<Rightarrow>
                     (case cur of
                        JArr xs \<Rightarrow> Inr (rowSet variantOp ''variant.options'' (JArr os'))
                      | other \<Rightarrow> Inr variantOp))))"

definition updateVariantBody :: "'w services \<Rightarrow> row \<Rightarrow> 'w \<Rightarrow> error + 'w" where
  "updateVariantBody svc variantOp w =
     (case prepareVariantOptions svc w variantOp of
        Inl e \<Rightarrow> Inl e
      | Inr variantOp' \<Rightarrow>
          variantServiceUpdate svc (rowGet variantOp' ''variant.id'')
            (transformVariantData variantOp') w)"

text \<open>
  The loop the four phases share: the body runs inside \<open>try\<close>; when it fails, the
  \<open>catch\<close> clause raises the diagnostic of the row and the loop ends with the state as
  it is; when it returns, the progress is updated and the loop goes on. (\<open>createVariants\<close>
  updates the progress inside \<open>try\<close>, the other three after it; the update does not
  throw, so the four phases behave alike.)
\<close>

fun rowLoop ::
  "(row \<Rightarrow> 'w \<Rightarrow> error + 'w) \<Rightarrow> row list \<Rightarrow> 'w applierState
     \<Rightarrow> (error \<times> 'w applierState) + 'w applierState" where
  "rowLoop body [] st = Inr st"
| "rowLoop body (r # rs) st =
     (case body r (world st) of
        Inl e \<Rightarrow> Inl (handleImportError r, st)
      | Inr w \<Rightarrow> rowLoop body rs (updateProgress (st\<lparr>world := w\<rparr>)))"

definition createProducts ::
  "'w services \<Rightarrow> redis \<Rightarrow> nat \<Rightarrow> string \<Rightarrow> 'w applierState
     \<Rightarrow> (error \<times> 'w applierState) + 'w applierState" where
  "createProducts svc store now batchJobId st =
     rowLoop (createProductBody svc) (getImportDataFromRedis store now batchJobId ProductCreate) st"

definition updateProducts ::
  "'w services \<Rightarrow> redis \<Rightarrow> nat \<Rightarrow> string \<Rightarrow> 'w applierState
     \<Rightarrow> (error \<times> 'w applierState) + 'w applierState" where
  "updateProducts svc store now batchJobId st =
     rowLoop (updateProductBody svc) (getImportDataFromRedis store now batchJobId ProductUpdate) st"

definition createVariants ::
  "'w services \<Rightarrow> redis \<Rightarrow> nat \<Rightarrow> string \<Rightarrow> 'w applierState
     \<Rightarrow> (error \<times> 'w applierState) + 'w applierState" where
  "createVariants svc store now batchJobId st =
     rowLoop (createVariantBody svc) (getImportDataFromRedis store now batchJobId VariantCreate) st"

definition updateVariants ::
  "'w services \<Rightarrow> redis \<Rightarrow> nat \<Rightarrow> string \<Rightarrow> 'w applierState
     \<Rightarrow> (error \<times> 'w applierState) + 'w applierState" where
  "updateVariants svc store now batchJobId st =
     rowLoop (updateVariantBody svc) (getImportDataFromRedis store now batchJobId VariantUpdate) st"

text \<open>
  \<open>processJob\<close> of the import strategy: the callback it hands to \<open>atomicPhase_\<close>. The
  four phases read the staging store at the time \<open>now\<close>. An error leaves the callback
  with the state as it is at that moment; what the enclosing transaction then does is
  outside the strategy.
\<close>

definition processJob ::
  "'w services \<Rightarrow> redis \<Rightarrow> nat \<Rightarrow> string \<Rightarrow> 'w applierState
     \<Rightarrow> (error \<times> 'w applierState) + 'w applierState" where
  "processJob svc store now batchJobId st =
     (case createProducts svc store now batchJobId st of
        Inl x \<Rightarrow> Inl x
      | Inr st1 \<Rightarrow>
          (case updateProducts svc store now batchJobId st1 of
             Inl x \<Rightarrow> Inl x
           | Inr st2 \<Rightarrow>
               (case createVariants svc store now batchJobId st2 of
                  Inl x \<Rightarrow> Inl x
                | Inr st3 \<Rightarrow>
                    (case updateVariants svc store now batchJobId st3 of
                       Inl x \<Rightarrow> Inl x
                     | Inr st4 \<Rightarrow> Inr (finalize st4)))))"

section \<open>Export: entities and column descriptors\<close>

text \<open>
  The entities the export reads, with the relations the list configuration loads and the
  fields the code uses. A price has a currency code or a region; the code reads both
  with a fallback, so both are optional. The region entity is the one of the importer.
\<close>

record moneyAmount =
  ma_currency_code :: "string option"
  ma_region :: "region option"
  ma_amount :: int

record productOption =
  po_title :: string

record productOptionValue =
  ov_value :: string

record image =
  img_url :: string

record productVariant =
  pv_id :: string
  pv_title :: string
  pv_sku :: string
  pv_prices :: "moneyAmount list"
  pv_options :: "productOptionValue list"

record product =
  p_id :: string
  p_handle :: string
  p_title :: string
  p_options :: "productOption list"
  p_images :: "image list"
  p_variants :: "productVariant list"

text \<open>
  A column descriptor: its \<open>entityName\<close> says whether the accessor reads the product or
  the variant.
\<close>

datatype columnDescriptor =
    ProductColumn "product \<Rightarrow> string"
  | VariantColumn "productVariant \<Rightarrow> string"

text \<open>
  \<open>columnDescriptors\<close> is a \<open>Map\<close>: it keeps its keys in insertion order, and \<open>set\<close> on a
  key it has replaces the value where the key stands.
\<close>

type_synonym columnMap = "(string \<times> columnDescriptor) list"

fun mapSet :: "columnMap \<Rightarrow> string \<Rightarrow> columnDescriptor \<Rightarrow> columnMap" where
  "mapSet [] k d = [(k, d)]"
| "mapSet ((k', d') # m) k d = (if k' = k then (k, d) # m else (k', d') # mapSet m k d)"

text \<open>
  A price key of the shape, \<open>ProductExportPriceData\<close>. The discoverer keeps the keys as
  JSON texts in a \<open>Set\<close>; two texts are equal exactly when the keys are, so the set is
  kept as the list of distinct keys in insertion order.
\<close>

record priceRegion =
  pr_name :: string
  pr_id :: string

record priceData =
  pd_currency_code :: "string option"
  pd_region :: "priceRegion option"

record exportShape =
  dynamicImageColumnCount :: nat
  dynamicOptionColumnCount :: nat
  prices :: "priceData list"

definition setAdd :: "'a list \<Rightarrow> 'a \<Rightarrow> 'a list" where
  "setAdd xs x = (if x \<in> set xs then xs else xs @ [x])"

text \<open>
  \<open>toUpperCase\<close> and \<open>toLowerCase\<close>, on the letters of ASCII: a character outside
  \<open>a\<close> to \<open>z\<close> and \<open>A\<close> to \<open>Z\<close> is left as it is, where JavaScript also maps the
  letters beyond ASCII. Currency codes and region identifiers are ASCII; for a region name
  with other letters the column name of the model keeps them unchanged.
\<close>

definition toUpperChar :: "char \<Rightarrow> char" where
  "toUpperChar c =
     (let n = (of_char c :: nat) in if 97 \<le> n \<and> n \<le> 122 then char_of (n - 32) else c)"

definition toLowerChar :: "char \<Rightarrow> char" where
  "toLowerChar c =
     (let n = (of_char c :: nat) in if 65 \<le> n \<and> n \<le> 90 then char_of (n + 32) else c)"

definition toUpperCase :: "string \<Rightarrow> string" where
  "toUpperCase s = map toUpperChar s"

definition toLowerCase :: "string \<Rightarrow> string" where
  "toLowerCase s = map toLowerChar s"

text \<open>
  \<open>amount.toString()\<close> for a whole amount: every digit is written. JavaScript writes a
  number from \<open>1e21\<close> on with an exponent; amounts are stored as integers of the
  database, far below that.
\<close>

definition showInt :: "int \<Rightarrow> string" where
  "showInt i = (if i < 0 then ''-'' @ showNat (nat (- i)) else showNat (nat i))"

section \<open>Export: building the header\<close>

text \<open>The text \<open>(<id>)\<close> that follows both kinds of price column name, empty without an id.\<close>

definition regionSuffix :: "priceData \<Rightarrow> string" where
  "regionSuffix priceData =
     (case pd_region priceData of
        None \<Rightarrow> []
      | Some r \<Rightarrow> if pr_id r \<noteq> [] then ''('' @ pr_id r @ '')'' else [])"

definition currencyColumnName :: "priceData \<Rightarrow> string \<Rightarrow> string" where
  "currencyColumnName priceData code =
     ''Price '' @ toUpperCase code @ '' '' @ regionSuffix priceData"

definition regionColumnName :: "priceData \<Rightarrow> priceRegion \<Rightarrow> string" where
  "regionColumnName priceData r =
     ''Price '' @ toLowerCase (pr_name r) @ '' '' @ regionSuffix priceData"

text \<open>Whether a price of the variant has the region of the price key, by name and id.\<close>

definition sameRegion :: "priceData \<Rightarrow> moneyAmount \<Rightarrow> bool" where
  "sameRegion priceData variantPrice =
     (case (ma_region variantPrice, pd_region priceData) of
        (Some vr, Some r) \<Rightarrow>
          toLowerCase (region_name vr) = toLowerCase (pr_name r) \<and>
          toLowerCase (region_id vr) = toLowerCase (pr_id r)
      | _ \<Rightarrow> False)"

text \<open>The predicate of \<open>find\<close> in the accessor of a currency column.\<close>

definition currencyPriceMatches :: "priceData \<Rightarrow> string \<Rightarrow> moneyAmount \<Rightarrow> bool" where
  "currencyPriceMatches priceData code variantPrice =
     (let shouldReturnPrice =
            (case ma_currency_code variantPrice of
               None \<Rightarrow> False
             | Some c \<Rightarrow>
                 if c \<noteq> [] then pd_region priceData = None \<and> toLowerCase c = toLowerCase code
                 else False)
      in if ma_region variantPrice \<noteq> None then sameRegion priceData variantPrice
         else shouldReturnPrice)"

definition amountOf :: "moneyAmount option \<Rightarrow> string" where
  "amountOf price = (case price of None \<Rightarrow> [] | Some p \<Rightarrow> showInt (ma_amount p))"

definition currencyAccessor :: "priceData \<Rightarrow> string \<Rightarrow> productVariant \<Rightarrow> string" where
  "currencyAccessor priceData code variant =
     amountOf (find (currencyPriceMatches priceData code) (pv_prices variant))"

definition regionAccessor :: "priceData \<Rightarrow> productVariant \<Rightarrow> string" where
  "regionAccessor priceData variant =
     amountOf (find (sameRegion priceData) (pv_prices variant))"

text \<open>One pass of the loop of \<open>appendMoneyAmountDescriptors\<close>: two tests, not alternatives.\<close>

definition appendMoneyAmountDescriptor :: "priceData \<Rightarrow> columnMap \<Rightarrow> columnMap" where
  "appendMoneyAmountDescriptor priceData m =
     (let m1 = (case pd_currency_code priceData of
                  None \<Rightarrow> m
                | Some code \<Rightarrow>
                    if code \<noteq> [] then
                      mapSet m (currencyColumnName priceData code)
                        (VariantColumn (currencyAccessor priceData code))
                    else m)
      in case pd_region priceData of
           None \<Rightarrow> m1
         | Some r \<Rightarrow>
             mapSet m1 (regionColumnName priceData r) (VariantColumn (regionAccessor priceData)))"

definition appendMoneyAmountDescriptors :: "priceData list \<Rightarrow> columnMap \<Rightarrow> columnMap" where
  "appendMoneyAmountDescriptors pricesData m = fold appendMoneyAmountDescriptor pricesData m"

definition optionNameAccessor :: "nat \<Rightarrow> product \<Rightarrow> string" where
  "optionNameAccessor i p = (if i < length (p_options p) then po_title (p_options p ! i) else [])"

definition optionValueAccessor :: "nat \<Rightarrow> productVariant \<Rightarrow> string" where
  "optionValueAccessor i v = (if i < length (pv_options v) then ov_value (pv_options v ! i) else [])"

definition imageAccessor :: "nat \<Rightarrow> product \<Rightarrow> string" where
  "imageAccessor i p = (if i < length (p_images p) then img_url (p_images p ! i) else [])"

definition appendOptionsDescriptors :: "nat \<Rightarrow> columnMap \<Rightarrow> columnMap" where
  "appendOptionsDescriptors maxOptionsCount m =
     fold (\<lambda>i m'.
             mapSet
               (mapSet m' (''Option '' @ showNat (i + 1) @ '' Name'')
                  (ProductColumn (optionNameAccessor i)))
               (''Option '' @ showNat (i + 1) @ '' Value'')
               (VariantColumn (optionValueAccessor i)))
          [0..<maxOptionsCount] m"

definition appendImagesDescriptors :: "nat \<Rightarrow> columnMap \<Rightarrow> columnMap" where
  "appendImagesDescriptors maxImagesCount m =
     fold (\<lambda>i m'. mapSet m' (''Image '' @ showNat (i + 1) @ '' Url'')
                     (ProductColumn (imageAccessor i)))
          [0..<maxImagesCount] m"

definition NEWLINE :: string where
  "NEWLINE = [CHR 0x0D, CHR 0x0A]"

definition DELIMITER :: string where
  "DELIMITER = '';''"

text \<open>
  \<open>buildHeader\<close> extends the shared descriptor map and returns the header line; the
  extended map is returned with it. Without a stored shape there is nothing to append.
\<close>

definition buildHeader :: "exportShape option \<Rightarrow> columnMap \<Rightarrow> string \<times> columnMap" where
  "buildHeader shape m =
     (let m3 = (case shape of
                  None \<Rightarrow> m
                | Some sh \<Rightarrow>
                    appendImagesDescriptors (dynamicImageColumnCount sh)
                      (appendOptionsDescriptors (dynamicOptionColumnCount sh)
                         (appendMoneyAmountDescriptors (prices sh) m)))
      in (joinWith DELIMITER (map fst m3) @ NEWLINE, m3))"

definition cell :: "product \<Rightarrow> productVariant \<Rightarrow> columnDescriptor \<Rightarrow> string" where
  "cell p v d = (case d of ProductColumn accessor \<Rightarrow> accessor p | VariantColumn accessor \<Rightarrow> accessor v)"

definition buildProductVariantLines :: "columnMap \<Rightarrow> product \<Rightarrow> string list" where
  "buildProductVariantLines m p =
     map (\<lambda>variant. joinWith DELIMITER (map (\<lambda>kd. cell p variant (snd kd)) m) @ NEWLINE)
         (p_variants p)"

section \<open>Export: the two paging passes\<close>

definition EXPORT_BATCH_SIZE :: nat where
  "EXPORT_BATCH_SIZE = 50"

datatype BatchJobStatus = CONFIRMED | PROCESSING | COMPLETED | CANCELED

record listConfig =
  cfg_skip :: "nat option"
  cfg_take :: "nat option"

record exportContext =
  list_config :: "listConfig option"
  shape :: "exportShape option"

text \<open>
  The result of the job. \<open>progress\<close> is the quotient \<open>advancementCount / productCount\<close>,
  kept here as the exact rational; the source holds its nearest double.
\<close>

record exportResult =
  file_key :: string
  result_count :: nat
  advancement_count :: nat
  result_progress :: rat

record exportJob =
  job_context :: exportContext
  job_result :: "exportResult option"

text \<open>
  The listing service is outside the strategy, so it is a parameter: \<open>listAndCount\<close>
  returns a page and the number of products that match the filter, \<open>list\<close> returns a
  page. The filter is fixed for a job; what varies is \<open>skip\<close> and \<open>take\<close>.
\<close>

record productService =
  svc_listAndCount :: "listConfig \<Rightarrow> product list \<times> nat"
  svc_list :: "listConfig \<Rightarrow> product list"

text \<open>\<open>batchJob.context?.list_config ?? {}\<close> and \<open>list_config?.skip ?? 0\<close>.\<close>

definition configOf :: "exportJob \<Rightarrow> listConfig" where
  "configOf job =
     (case list_config (job_context job) of
        None \<Rightarrow> \<lparr>cfg_skip = None, cfg_take = None\<rparr>
      | Some c \<Rightarrow> c)"

definition skipOf :: "exportJob \<Rightarrow> nat" where
  "skipOf job = (case cfg_skip (configOf job) of None \<Rightarrow> 0 | Some s \<Rightarrow> s)"

subsection \<open>Shape discovery\<close>

definition priceKey :: "moneyAmount \<Rightarrow> priceData" where
  "priceKey price =
     \<lparr>pd_currency_code =
        (case ma_currency_code price of
           Some c \<Rightarrow> Some c
         | None \<Rightarrow> map_option region_currency_code (ma_region price)),
      pd_region =
        map_option (\<lambda>r. \<lparr>pr_name = region_name r, pr_id = region_id r\<rparr>) (ma_region price)\<rparr>"

text \<open>The body of \<open>for (const product of products)\<close> on the three running results.\<close>

definition scanVariant :: "productVariant \<Rightarrow> priceData list \<Rightarrow> priceData list" where
  "scanVariant variant pricesData = fold (\<lambda>price acc. setAdd acc (priceKey price)) (pv_prices variant) pricesData"

definition scanProduct :: "product \<Rightarrow> exportShape \<Rightarrow> exportShape" where
  "scanProduct p sh =
     \<lparr>dynamicImageColumnCount = max (dynamicImageColumnCount sh) (length (p_images p)),
      dynamicOptionColumnCount = max (dynamicOptionColumnCount sh) (length (p_options p)),
      prices = fold scanVariant (p_variants p) (prices sh)\<rparr>"

text \<open>
  The loop \<open>while (offset < productCount)\<close> of \<open>preProcessBatchJob\<close>. A service that
  keeps returning empty pages keeps the loop running: then there is no result.
\<close>

partial_function (option) discoverLoop ::
  "productService \<Rightarrow> listConfig \<Rightarrow> nat \<Rightarrow> nat \<Rightarrow> product list \<Rightarrow> exportShape
     \<Rightarrow> exportShape option" where
  "discoverLoop svc cfg productCount offset products sh =
     (if offset < productCount then
        (let products1 =
               (if products = [] then
                  svc_list svc (cfg\<lparr>cfg_skip := Some offset, cfg_take := Some EXPORT_BATCH_SIZE\<rparr>)
                else products)
         in discoverLoop svc cfg productCount (offset + length products1) []
              (fold scanProduct products1 sh))
      else Some sh)"

declare discoverLoop.simps [code]

text \<open>
  \<open>preProcessBatchJob\<close> of the export strategy: the job with the shape in its context
  (the update of the job sets the field it is given and keeps the others).
\<close>

definition exportPreProcessBatchJob :: "productService \<Rightarrow> exportJob \<Rightarrow> exportJob option" where
  "exportPreProcessBatchJob svc job =
     (case svc_listAndCount svc (configOf job) of
        (productList, productCount) \<Rightarrow>
          (case discoverLoop svc (configOf job) productCount (skipOf job) productList
                  \<lparr>dynamicImageColumnCount = 0, dynamicOptionColumnCount = 0, prices = []\<rparr> of
             None \<Rightarrow> None
           | Some sh \<Rightarrow> Some (job\<lparr>job_context := (job_context job)\<lparr>shape := Some sh\<rparr>\<rparr>)))"

subsection \<open>Streaming writer\<close>

text \<open>
  What a run of \<open>processJob\<close> leaves: the chunks written to the upload stream, whether
  the stream was ended, whether the file was deleted, the result last persisted to the
  job, whether the upload was awaited, and the descriptor map.
\<close>

record exportRun =
  stream_written :: "string list"
  stream_ended :: bool
  file_deleted :: bool
  persisted_result :: "exportResult option"
  upload_awaited :: bool
  descriptors :: columnMap

record writerState =
  w_offset :: nat
  w_products :: "product list"
  w_advancementCount :: nat
  w_updates :: nat
  w_written :: "string list"
  w_result :: "exportResult option"

text \<open>
  The loop \<open>while (offset < productCount)\<close> of \<open>processJob\<close>. The job returned by the
  \<open>k\<close>-th \<open>batchJobService.update\<close> of the run has the status \<open>statusAfter k\<close>: the
  status is changed from outside, between the pages.
\<close>

partial_function (option) writerLoop ::
  "productService \<Rightarrow> (nat \<Rightarrow> BatchJobStatus) \<Rightarrow> string \<Rightarrow> columnMap \<Rightarrow> listConfig \<Rightarrow> nat
     \<Rightarrow> nat \<Rightarrow> writerState \<Rightarrow> exportRun option" where
  "writerLoop svc statusAfter fileKey m cfg limit productCount s =
     (if w_offset s < productCount then
        (let products1 =
               (if w_products s = [] then
                  svc_list svc (cfg\<lparr>cfg_skip := Some (w_offset s), cfg_take := Some limit\<rparr>)
                else w_products s);
             written1 = w_written s @ concat (map (buildProductVariantLines m) products1);
             advancementCount1 = w_advancementCount s + length products1;
             offset1 = w_offset s + length products1;
             result1 = \<lparr>file_key = fileKey, result_count = productCount,
                        advancement_count = advancementCount1,
                        result_progress = of_nat advancementCount1 / of_nat productCount\<rparr>
         in if statusAfter (w_updates s + 1) = CANCELED then
              Some \<lparr>stream_written = written1, stream_ended = True, file_deleted = True,
                    persisted_result = Some result1, upload_awaited = False, descriptors = m\<rparr>
            else
              writerLoop svc statusAfter fileKey m cfg limit productCount
                \<lparr>w_offset = offset1, w_products = [], w_advancementCount = advancementCount1,
                 w_updates = w_updates s + 1, w_written = written1, w_result = Some result1\<rparr>)
      else
        Some \<lparr>stream_written = w_written s, stream_ended = True, file_deleted = False,
              persisted_result = w_result s, upload_awaited = True, descriptors = m\<rparr>)"

declare writerLoop.simps [code]

text \<open>
  \<open>processJob\<close> of the export strategy, for a run whose service calls return: the header
  is built and written, the first page is fetched with the count, then the loop runs.
\<close>

definition exportProcessJob ::
  "productService \<Rightarrow> (nat \<Rightarrow> BatchJobStatus) \<Rightarrow> string \<Rightarrow> columnMap \<Rightarrow> exportJob
     \<Rightarrow> exportRun option" where
  "exportProcessJob svc statusAfter fileKey columnDescriptors job =
     (case buildHeader (shape (job_context job)) columnDescriptors of
        (header, m) \<Rightarrow>
          (let advancementCount =
                 (case job_result job of None \<Rightarrow> 0 | Some r \<Rightarrow> advancement_count r);
               offset = skipOf job + advancementCount;
               limit = (case cfg_take (configOf job) of None \<Rightarrow> EXPORT_BATCH_SIZE | Some t \<Rightarrow> t)
           in case svc_listAndCount svc ((configOf job)\<lparr>cfg_skip := Some offset, cfg_take := Some limit\<rparr>) of
                (productList, productCount) \<Rightarrow>
                  writerLoop svc statusAfter fileKey m (configOf job) limit productCount
                    \<lparr>w_offset = offset, w_products = productList,
                     w_advancementCount = advancementCount, w_updates = 0,
                     w_written = [header], w_result = job_result job\<rparr>))"

section \<open>Notions used by the properties\<close>



text \<open>A record carries a field when the field holds a value other than \<open>undefined\<close> and \<open>null\<close>.\<close>

definition carries :: "jsval \<Rightarrow> string \<Rightarrow> bool" where
  "carries p k = (case getField p k of Inl e \<Rightarrow> False | Inr v \<Rightarrow> v \<noteq> JUndef \<and> v \<noteq> JNull)"

text \<open>A parsed price entry names a region when its \<open>regionName\<close> is truthy.\<close>

definition namesRegion :: "jsval \<Rightarrow> bool" where
  "namesRegion p = (case getField p ''regionName'' of Inl e \<Rightarrow> False | Inr v \<Rightarrow> truthy v)"

definition resolvedPrice :: "jsval \<Rightarrow> jsval \<Rightarrow> bool" where
  "resolvedPrice p q =
     (\<not> (carries q ''region_id'' \<and> carries q ''currency_code'') \<and>
      (namesRegion p \<or> carries p ''currency_code'' \<longrightarrow>
         carries q ''region_id'' \<or> carries q ''currency_code''))"


subsection \<open>Concrete inputs\<close>

definition noRegions :: regionRepo where
  "noRegions name = Inr None"

definition denmark :: region where
  "denmark = \<lparr>region_id = ''reg_HMnixPlOicAs7aBlXuchAGxd'', region_name = ''Denmark'',
              region_currency_code = ''DKK''\<rparr>"

definition denmarkOnly :: regionRepo where
  "denmarkOnly name = Inr (if name = JStr ''Denmark'' then Some denmark else None)"

definition defaultProfile :: jsval where
  "defaultProfile = JObj [(''id'', JStr ''default_shipping_profile'')]"

definition rowWithProductId :: row where
  "rowWithProductId =
     [(''product.id'', JStr ''O6S1YQ6mKm''),
      (''product.handle'', JStr ''test-product-product-1''),
      (''variant.sku'', JStr ''test-sku-1''),
      (''variant.prices'', JArr [])]"

definition rowDkk110 :: row where
  "rowDkk110 =
     [(''product.handle'', JStr ''test-product-product-2''),
      (''variant.sku'', JStr ''test-sku-2''),
      (''variant.prices'', JArr [JObj [(''amount'', JStr ''110''), (''regionName'', JStr ''Denmark'')]])]"



definition opsDkk :: importOps where
  "opsDkk =
     \<lparr>productsCreate =
        [[(''product.handle'', JStr ''test-product-product-2''),
          (''variant.sku'', JStr ''test-sku-2''),
          (''variant.prices'',
             JArr [JObj [(''amount'', JStr ''110''),
                         (''region_id'', JStr ''reg_HMnixPlOicAs7aBlXuchAGxd'')]]),
          (''product.profile_id'', defaultProfile)]],
      variantsCreate =
        [[(''product.handle'', JStr ''test-product-product-2''),
          (''variant.sku'', JStr ''test-sku-2''),
          (''variant.prices'',
             JArr [JObj [(''amount'', JStr ''110''),
                         (''region_id'', JStr ''reg_HMnixPlOicAs7aBlXuchAGxd'')]]),
          (''product.profile_id'', defaultProfile)]],
      productsUpdate = [],
      variantsUpdate =
        [[(''product.handle'', JStr ''test-product-product-2''),
          (''variant.id'', JStr ''3SS1MHGDEJ''),
          (''variant.sku'', JStr ''test-sku-3''),
          (''variant.prices'',
             JArr [JObj [(''amount'', JStr ''120''), (''currency_code'', JStr ''DKK'')]])]]\<rparr>"

definition rowBlankRegion :: row where
  "rowBlankRegion =
     [(''product.handle'', JStr ''test-product-product-4''),
      (''variant.prices'', JArr [JObj [(''amount'', JStr ''10''), (''regionName'', JStr [])]])]"

definition priceNeither :: jsval where
  "priceNeither = JObj [(''amount'', JStr ''10''), (''currency_code'', JUndef)]"

definition priceDenmark :: jsval where
  "priceDenmark =
     JObj [(''amount'', JStr ''110''), (''region_id'', JStr ''reg_HMnixPlOicAs7aBlXuchAGxd'')]"

definition rowDkk110Resolved :: row where
  "rowDkk110Resolved =
     [(''product.handle'', JStr ''test-product-product-2''),
      (''variant.sku'', JStr ''test-sku-2''),
      (''variant.prices'', JArr [priceDenmark])]"

definition rowConstructor :: row where
  "rowConstructor = [(''product.handle'', JStr ''constructor''), (''variant.prices'', JArr [])]"

subsection \<open>The applier as one run over the staged operations\<close>

text \<open>
  The four phases read their batches from the staging store and run one after the other,
  so a job is one pass over the staged operations in phase order.
\<close>

definition importBody :: "'w services \<Rightarrow> OperationType \<Rightarrow> row \<Rightarrow> 'w \<Rightarrow> error + 'w" where
  "importBody svc op =
     (case op of
        ProductCreate \<Rightarrow> createProductBody svc
      | ProductUpdate \<Rightarrow> updateProductBody svc
      | VariantCreate \<Rightarrow> createVariantBody svc
      | VariantUpdate \<Rightarrow> updateVariantBody svc)"

definition stagedOps :: "redis \<Rightarrow> nat \<Rightarrow> string \<Rightarrow> (OperationType \<times> row) list" where
  "stagedOps store now batchJobId =
     map (Pair ProductCreate) (getImportDataFromRedis store now batchJobId ProductCreate) @
     map (Pair ProductUpdate) (getImportDataFromRedis store now batchJobId ProductUpdate) @
     map (Pair VariantCreate) (getImportDataFromRedis store now batchJobId VariantCreate) @
     map (Pair VariantUpdate) (getImportDataFromRedis store now batchJobId VariantUpdate)"

fun runOps ::
  "'w services \<Rightarrow> (OperationType \<times> row) list \<Rightarrow> 'w applierState
     \<Rightarrow> (error \<times> 'w applierState) + 'w applierState" where
  "runOps svc [] st = Inr st"
| "runOps svc ((op, r) # rest) st =
     (case importBody svc op r (world st) of
        Inl e \<Rightarrow> Inl (handleImportError r, st)
      | Inr w \<Rightarrow> runOps svc rest (updateProgress (st\<lparr>world := w\<rparr>)))"

subsection \<open>Concrete inputs of the store and the applier\<close>

definition emptyRedis :: redis where
  "emptyRedis key = None"

definition testServices :: "nat services" where
  "testServices =
     \<lparr>productServiceCreate =
        (\<lambda>data w. if rowGet data ''handle'' = JStr ''broken-product''
                   then Inl (ServiceError ''Product with handle broken-product already exists'')
                   else Inr (Suc w)),
      productServiceUpdate = (\<lambda>productId data w. Inr (Suc w)),
      productRepoFindOne =
        (\<lambda>handle w. Inr (JObj [(''handle'', handle), (''options'', JArr [])])),
      variantServiceCreate = (\<lambda>product data w. Inr (Suc w)),
      variantServiceUpdate = (\<lambda>variantId data w. Inr (Suc w)),
      optionRepoFindOne = (\<lambda>title w. Inr (JObj [(''id'', JStr ''opt_1''), (''title'', title)]))\<rparr>"

definition rowGood :: row where
  "rowGood = [(''product.handle'', JStr ''good-product''), (''variant.sku'', JStr ''sku-1'')]"

definition rowBroken :: row where
  "rowBroken =
     [(''product.id'', JStr ''prod_2''), (''product.handle'', JStr ''broken-product''),
      (''variant.sku'', JStr ''sku-2'')]"

definition rowLater :: row where
  "rowLater = [(''product.handle'', JStr ''later-product''), (''variant.sku'', JStr ''sku-3'')]"

definition brokenJobStore :: redis where
  "brokenJobStore =
     setImportDataToRedis emptyRedis 0 ''job_1''
       \<lparr>productsCreate = [rowGood, rowBroken, rowLater], variantsCreate = [rowGood, rowLater],
        productsUpdate = [], variantsUpdate = []\<rparr>"

definition freshApplier :: "nat option \<Rightarrow> nat applierState" where
  "freshApplier n =
     \<lparr>processedCounter = 0, world = 0,
      jobContext = \<lparr>ctx_total = n, ctx_progress = None, ctx_fileKey = ''csv.key''\<rparr>,
      contextUpdates = []\<rparr>"

definition afterFirstRow :: "nat applierState" where
  "afterFirstRow =
     \<lparr>processedCounter = 1, world = 1,
      jobContext = \<lparr>ctx_total = Some 5, ctx_progress = None, ctx_fileKey = ''csv.key''\<rparr>,
      contextUpdates = []\<rparr>"

definition bigJobStore :: redis where
  "bigJobStore =
     setImportDataToRedis emptyRedis 0 ''job_2''
       \<lparr>productsCreate = replicate 60 rowGood, variantsCreate = replicate 141 rowGood,
        productsUpdate = [], variantsUpdate = []\<rparr>"

definition afterBigJob :: "nat applierState" where
  "afterBigJob =
     \<lparr>processedCounter = 201, world = 201,
      jobContext = \<lparr>ctx_total = Some 201, ctx_progress = Some 201, ctx_fileKey = ''csv.key''\<rparr>,
      contextUpdates = [Some 100, Some 200, Some 201]\<rparr>"

definition stagedDkkStore :: redis where
  "stagedDkkStore = setImportDataToRedis emptyRedis 0 ''job_1'' opsDkk"

subsection \<open>Notions of the export properties\<close>

text \<open>The names of the columns that one price key asks for, in the order of the two tests.\<close>

definition priceColumnNames :: "priceData \<Rightarrow> string list" where
  "priceColumnNames priceData =
     (case pd_currency_code priceData of
        None \<Rightarrow> []
      | Some code \<Rightarrow> if code \<noteq> [] then [currencyColumnName priceData code] else []) @
     (case pd_region priceData of
        None \<Rightarrow> []
      | Some r \<Rightarrow> [regionColumnName priceData r])"

definition currencyOnly :: "priceData \<Rightarrow> bool" where
  "currencyOnly priceData =
     (pd_region priceData = None \<and>
      (case pd_currency_code priceData of None \<Rightarrow> False | Some code \<Rightarrow> code \<noteq> []))"

text \<open>
  Modelled from the spec: the listing service (\<open>ProductService.list\<close> and
  \<open>listAndCount\<close>, whose code is not among the sources), over a fixed dataset: the list of
  the products that match the job's filter, in the order of the query. A page is the part
  of the list that \<open>skip\<close> and \<open>take\<close> select, the count is the length of the list.
\<close>

definition datasetPage :: "product list \<Rightarrow> listConfig \<Rightarrow> product list" where
  "datasetPage ds cfg =
     (let rest = drop (case cfg_skip cfg of None \<Rightarrow> 0 | Some s \<Rightarrow> s) ds
      in case cfg_take cfg of None \<Rightarrow> rest | Some t \<Rightarrow> List.take t rest)"

definition datasetService :: "product list \<Rightarrow> productService" where
  "datasetService ds =
     \<lparr>svc_listAndCount = (\<lambda>cfg. (datasetPage ds cfg, length ds)), svc_list = datasetPage ds\<rparr>"

text \<open>The lines of a list of products under a descriptor map.\<close>

definition linesOf :: "columnMap \<Rightarrow> product list \<Rightarrow> string list" where
  "linesOf m ps = concat (map (buildProductVariantLines m) ps)"

text \<open>The price keys of one product.\<close>

definition productKeys :: "product \<Rightarrow> priceData set" where
  "productKeys p = (\<Union>v \<in> set (p_variants p). priceKey ` set (pv_prices v))"

text \<open>
  Where a run of the writer starts and how large its pages are: the values \<open>processJob\<close>
  computes before the loop.
\<close>

definition advancementOf :: "exportJob \<Rightarrow> nat" where
  "advancementOf job = (case job_result job of None \<Rightarrow> 0 | Some r \<Rightarrow> advancement_count r)"

definition startOffset :: "exportJob \<Rightarrow> nat" where
  "startOffset job = skipOf job + advancementOf job"

definition limitOf :: "exportJob \<Rightarrow> nat" where
  "limitOf job = (case cfg_take (configOf job) of None \<Rightarrow> EXPORT_BATCH_SIZE | Some t \<Rightarrow> t)"

subsection \<open>Concrete inputs of the export\<close>

definition staticColumns :: columnMap where
  "staticColumns =
     [(''Product Handle'', ProductColumn p_handle), (''Variant SKU'', VariantColumn pv_sku)]"

definition dkkPrice :: "int \<Rightarrow> moneyAmount" where
  "dkkPrice n = \<lparr>ma_currency_code = Some ''dkk'', ma_region = None, ma_amount = n\<rparr>"

definition denmarkPrice :: "int \<Rightarrow> moneyAmount" where
  "denmarkPrice n = \<lparr>ma_currency_code = None, ma_region = Some denmark, ma_amount = n\<rparr>"

definition variantOf :: "string \<Rightarrow> moneyAmount list \<Rightarrow> productVariant" where
  "variantOf sku ps =
     \<lparr>pv_id = ''variant_'' @ sku, pv_title = ''Test variant'', pv_sku = sku, pv_prices = ps,
      pv_options = [\<lparr>ov_value = ''red''\<rparr>]\<rparr>"

definition productA :: product where
  "productA =
     \<lparr>p_id = ''prod_a'', p_handle = ''product-a'', p_title = ''A'',
      p_options = [\<lparr>po_title = ''Color''\<rparr>],
      p_images = [\<lparr>img_url = ''a1.png''\<rparr>, \<lparr>img_url = ''a2.png''\<rparr>],
      p_variants = [variantOf ''sku-a1'' [dkkPrice 110], variantOf ''sku-a2'' [dkkPrice 120]]\<rparr>"

definition productB :: product where
  "productB =
     \<lparr>p_id = ''prod_b'', p_handle = ''product-b'', p_title = ''B'',
      p_options = [\<lparr>po_title = ''Color''\<rparr>, \<lparr>po_title = ''Size''\<rparr>],
      p_images = [],
      p_variants = [variantOf ''sku-b1'' [denmarkPrice 130]]\<rparr>"

definition productC :: product where
  "productC =
     \<lparr>p_id = ''prod_c'', p_handle = ''product-c'', p_title = ''C'',
      p_options = [], p_images = [],
      p_variants = [variantOf ''sku-c1'' []]\<rparr>"

definition plainJob :: exportJob where
  "plainJob = \<lparr>job_context = \<lparr>list_config = None, shape = None\<rparr>, job_result = None\<rparr>"

definition onePerPageJob :: exportJob where
  "onePerPageJob =
     \<lparr>job_context = \<lparr>list_config = Some \<lparr>cfg_skip = None, cfg_take = Some 1\<rparr>, shape = None\<rparr>,
      job_result = None\<rparr>"

definition canceledAfterSecondPage :: "nat \<Rightarrow> BatchJobStatus" where
  "canceledAfterSecondPage k = (if k = 2 then CANCELED else PROCESSING)"

definition keyDkk :: priceData where
  "keyDkk = \<lparr>pd_currency_code = Some ''dkk'', pd_region = None\<rparr>"

definition keyUsd :: priceData where
  "keyUsd = \<lparr>pd_currency_code = Some ''usd'', pd_region = None\<rparr>"

definition keyDenmark :: priceData where
  "keyDenmark =
     \<lparr>pd_currency_code = Some ''DKK'',
      pd_region = Some \<lparr>pr_name = ''Denmark'', pr_id = ''reg_HMnixPlOicAs7aBlXuchAGxd''\<rparr>\<rparr>"

text \<open>The names of the option columns and of the image columns for a number of slots.\<close>

definition optionColumnNames :: "nat \<Rightarrow> string list" where
  "optionColumnNames n =
     concat (map (\<lambda>i. [''Option '' @ showNat (i + 1) @ '' Name'',
                        ''Option '' @ showNat (i + 1) @ '' Value'']) [0..<n])"

definition imageColumnNames :: "nat \<Rightarrow> string list" where
  "imageColumnNames n = map (\<lambda>i. ''Image '' @ showNat (i + 1) @ '' Url'') [0..<n]"

definition shapeUsdDkk :: exportShape where
  "shapeUsdDkk =
     \<lparr>dynamicImageColumnCount = 1, dynamicOptionColumnCount = 1, prices = [keyUsd, keyDkk]\<rparr>"

text \<open>A price key passes the first test of the header builder: its currency code is truthy.\<close>

definition hasCurrencyCode :: "priceData \<Rightarrow> bool" where
  "hasCurrencyCode priceData =
     (case pd_currency_code priceData of None \<Rightarrow> False | Some code \<Rightarrow> code \<noteq> [])"

definition shapeDenmark :: exportShape where
  "shapeDenmark =
     \<lparr>dynamicImageColumnCount = 0, dynamicOptionColumnCount = 0, prices = [keyDenmark]\<rparr>"

section \<open>Properties of the classifier\<close>

lemma rowGet_rowSet: "rowGet (rowSet r k v) k' = (if k' = k then v else rowGet r k')"
  by (induction r) (auto simp: rowGet_def)














text \<open>
  Claim C1. The first row of a product handle should go to the product-update batch when
  it carries a product identifier and to the product-create batch when it does not. The
  parser stores the column \<open>Product id\<close> under \<open>product.id\<close>, the key that
  \<open>updateProducts\<close> and \<open>handleImportError_\<close> read, while the classifier tests
  \<open>product.product.id\<close>. Evaluated on the first row of a handle that carries the product
  identifier \<open>O6S1YQ6mKm\<close>: the row lands in the product-create batch and the
  product-update batch stays empty.
\<close>

theorem product_id_row_routed_to_create:
  "truthy (rowGet rowWithProductId ''product.id'') \<and>
   getImportInstructions noRegions defaultProfile [rowWithProductId] =
     Inr \<lparr>productsCreate = [rowWithProductId @ [(''product.profile_id'', defaultProfile)]],
          variantsCreate = [rowWithProductId @ [(''product.profile_id'', defaultProfile)]],
          productsUpdate = [], variantsUpdate = []\<rparr>"
  by code_simp




text \<open>
  A handle outside the amended claim: \<open>constructor\<close> is a property every plain object
  inherits, so \<open>seenProducts["constructor"]\<close> is truthy before any row was seen, and the
  only row of that handle gets its variant-level operation but no product-level one.
\<close>

lemma inherited_handle_unrouted:
  "getImportInstructions noRegions defaultProfile [rowConstructor]
     = Inr \<lparr>productsCreate = [], variantsCreate = [rowConstructor],
            productsUpdate = [], variantsUpdate = []\<rparr>"
  by code_simp

section \<open>Properties of price resolution\<close>

lemma priceRecord_resolved: "priceRecord repo p = Inr q \<Longrightarrow> resolvedPrice p q"
  by (auto simp: priceRecord_def resolvedPrice_def carries_def namesRegion_def rowGet_def
      split: sum.splits if_splits option.splits)

lemma pricesLoop_resolved:
  "pricesLoop repo ps acc = Inr out \<Longrightarrow> \<exists>qs. out = acc @ qs \<and> list_all2 resolvedPrice ps qs"
proof (induction ps arbitrary: acc)
  case Nil
  then show ?case by simp
next
  case (Cons p ps)
  from Cons.prems obtain q where q: "priceRecord repo p = Inr q"
    and rest: "pricesLoop repo ps (acc @ [q]) = Inr out"
    by (auto split: sum.splits)
  from Cons.IH[OF rest] obtain qs where "out = (acc @ [q]) @ qs" "list_all2 resolvedPrice ps qs"
    by blast
  with priceRecord_resolved[OF q] show ?case
    by (intro exI[of _ "q # qs"]) simp
qed

text \<open>
  Claim C4, as stated, at a row the parser builds from the header \<open>Price  [USD]\<close> (an empty
  name between the two spaces): the price entry has the empty region name, which is
  falsy, and no currency code, so the resolved record carries neither a region identifier
  nor a currency code.
\<close>

theorem price_neither_counterexample:
  "priceRegionReducer [(''product.handle'', JStr ''test-product-product-4'')]
       ''Price  [USD]'' (JStr ''10'') = Inr rowBlankRegion \<and>
   handleVariantPrices noRegions rowBlankRegion
     = Inr [(''product.handle'', JStr ''test-product-product-4''),
            (''variant.prices'', JArr [priceNeither])] \<and>
   \<not> carries priceNeither ''region_id'' \<and> \<not> carries priceNeither ''currency_code''"
  by code_simp

text \<open>
  Claim C4, amended. After \<open>handleVariantPrices\<close> the row's price list holds one record per
  price entry, in order; no record carries both a region identifier and a currency code;
  and a record carries one of the two whenever its entry names a region or carries a
  currency code.
\<close>

theorem price_exclusivity:
  assumes "handleVariantPrices regionRepo r = Inr r'"
  shows "\<exists>ps qs. iterate (rowGet r ''variant.prices'') = Inr ps \<and>
           rowGet r' ''variant.prices'' = JArr qs \<and> list_all2 resolvedPrice ps qs"
proof -
  from assms obtain ps where ps: "iterate (rowGet r ''variant.prices'') = Inr ps"
    by (auto simp: handleVariantPrices_def split: sum.splits)
  from assms ps obtain out where out: "pricesLoop regionRepo ps [] = Inr out"
    and r': "r' = rowSet r ''variant.prices'' (JArr out)"
    by (auto simp: handleVariantPrices_def split: sum.splits)
  from pricesLoop_resolved[OF out] have "list_all2 resolvedPrice ps out" by simp
  with ps r' show ?thesis by (simp add: rowGet_rowSet)
qed

text \<open>
  The amended claim at a row with one region price: the resolved record carries the
  identifier of region Denmark and no currency code.
\<close>

theorem price_exclusivity_witness:
  "handleVariantPrices denmarkOnly rowDkk110 = Inr rowDkk110Resolved \<and>
   rowGet rowDkk110Resolved ''variant.prices'' = JArr [priceDenmark] \<and>
   carries priceDenmark ''region_id'' \<and> \<not> carries priceDenmark ''currency_code''"
proof -
  have h: "handleVariantPrices denmarkOnly rowDkk110 = Inr rowDkk110Resolved"
    by code_simp
  have c: "rowGet rowDkk110Resolved ''variant.prices'' = JArr [priceDenmark] \<and>
      carries priceDenmark ''region_id'' \<and> \<not> carries priceDenmark ''currency_code''"
    by code_simp
  show ?thesis using price_exclusivity[OF h] h c by blast
qed

section \<open>Properties of the region price reducer\<close>

lemma splitOn_word:
  "sep \<notin> set w \<Longrightarrow> splitOn sep (w @ sep # rest) = w # splitOn sep rest"
  by (induction w) auto

lemma takeWhile_before_sep:
  "\<exists>rest'. name @ sep # rest = takeWhile (\<lambda>c. c \<noteq> sep) name @ sep # rest'"
  by (induction name) auto

lemma takeWhile_shorter:
  "sep \<in> set name \<Longrightarrow> length (takeWhile (\<lambda>c. c \<noteq> sep) name) < length name"
  by (induction name) auto

lemma second_token:
  "strAt (splitOn CHR '' '' (''Price '' @ name @ '' ['' @ code @ '']'')) 1
     = JStr (takeWhile (\<lambda>c. c \<noteq> CHR '' '') name)"
proof -
  obtain rest' where r: "name @ CHR '' '' # (''['' @ code @ '']'')
      = takeWhile (\<lambda>c. c \<noteq> CHR '' '') name @ CHR '' '' # rest'"
    using takeWhile_before_sep[of name "CHR '' ''" "''['' @ code @ '']''"] by blast
  have "splitOn CHR '' '' (''Price '' @ name @ '' ['' @ code @ '']'')
      = ''Price'' # splitOn CHR '' '' (name @ CHR '' '' # (''['' @ code @ '']''))"
    using splitOn_word[of "CHR '' ''" "''Price''" "name @ '' ['' @ code @ '']''"] by simp
  also have "\<dots> = ''Price'' # takeWhile (\<lambda>c. c \<noteq> CHR '' '') name # splitOn CHR '' '' rest'"
    unfolding r by (subst splitOn_word) (auto dest: set_takeWhileD)
  finally show ?thesis by (simp add: strAt_def)
qed

text \<open>
  Claim C10. For a header of the form \<open>Price <Name> [<CODE>]\<close>, a cell that is present
  and a row whose price list is absent or an array, the reducer returns, and the price
  list then ends with an entry whose \<open>regionName\<close> is the part of \<open><Name>\<close> before its
  first space: its first space-separated token. A name that contains a space is cut
  there, so the recorded name is strictly shorter than the name in the header.
\<close>

theorem region_name_first_token:
  assumes "key = ''Price '' @ name @ '' ['' @ code @ '']''"
    and "v \<noteq> JUndef" and "v \<noteq> JNull"
    and "rowGet builtLine ''variant.prices'' = JUndef \<and> earlier = [] \<or>
         rowGet builtLine ''variant.prices'' = JArr earlier"
  shows "(\<exists>builtLine'.
            priceRegionReducer builtLine key v = Inr builtLine' \<and>
            rowGet builtLine' ''variant.prices''
              = JArr (earlier @ [JObj [(''amount'', v),
                    (''regionName'', JStr (takeWhile (\<lambda>c. c \<noteq> CHR '' '') name))]])) \<and>
         (CHR '' '' \<in> set name \<longrightarrow>
            length (takeWhile (\<lambda>c. c \<noteq> CHR '' '') name) < length name)"
proof -
  have tok: "strAt (splitOn CHR '' '' key) 1 = JStr (takeWhile (\<lambda>c. c \<noteq> CHR '' '') name)"
    unfolding assms(1) by (rule second_token)
  have "\<exists>builtLine'.
            priceRegionReducer builtLine key v = Inr builtLine' \<and>
            rowGet builtLine' ''variant.prices''
              = JArr (earlier @ [JObj [(''amount'', v),
                    (''regionName'', JStr (takeWhile (\<lambda>c. c \<noteq> CHR '' '') name))]])"
    using assms(2-4) tok
    by (auto simp: priceRegionReducer_def Let_def rowGet_rowSet)
  moreover have "CHR '' '' \<in> set name \<longrightarrow>
            length (takeWhile (\<lambda>c. c \<noteq> CHR '' '') name) < length name"
    by (simp add: takeWhile_shorter)
  ultimately show ?thesis by blast
qed

text \<open>
  The claim at the header \<open>Price north america [USD]\<close>: the entry records the region
  name \<open>north\<close>.
\<close>

theorem region_name_first_token_witness:
  "priceRegionReducer [] ''Price north america [USD]'' (JStr ''100'')
     = Inr [(''variant.prices'',
             JArr [JObj [(''amount'', JStr ''100''), (''regionName'', JStr ''north'')]])] \<and>
   length ''north'' < length ''north america''"
proof -
  have k: "''Price north america [USD]'' = ''Price '' @ ''north america'' @ '' ['' @ ''USD'' @ '']''"
    by simp
  have p: "rowGet [] ''variant.prices'' = JUndef \<and> [] = ([] :: jsval list) \<or>
      rowGet [] ''variant.prices'' = JArr []"
    by code_simp
  have t: "takeWhile (\<lambda>c. c \<noteq> CHR '' '') ''north america'' = ''north''"
    by simp
  have s: "CHR '' '' \<in> set ''north america''"
    by simp
  have g: "rowGet [(''variant.prices'',
             JArr [JObj [(''amount'', JStr ''100''), (''regionName'', JStr ''north'')]])]
      ''variant.prices''
      = JArr [JObj [(''amount'', JStr ''100''), (''regionName'', JStr ''north'')]]"
    by code_simp
  have e: "priceRegionReducer [] ''Price north america [USD]'' (JStr ''100'')
     = Inr [(''variant.prices'',
             JArr [JObj [(''amount'', JStr ''100''), (''regionName'', JStr ''north'')]])]"
    by code_simp
  show ?thesis
    using region_name_first_token[OF k _ _ p, of "JStr ''100''"] e t s by simp
qed

section \<open>Properties of the staging store\<close>

text \<open>
  Claim C9. After \<open>clearRedisRecords\<close> every read of the job's four operation types
  should return the empty sequence. \<open>clearRedisRecords\<close> issues one \<open>DEL\<close> for the key
  \<open>pij_<jobId>:*\<close>; \<open>DEL\<close> takes the name literally, and no entry has that name.
  Evaluated on the batches staged for \<open>job_1\<close> at time 0, cleared at time 1 and read at
  time 2: nothing was removed, and the three staged batches are read back.
\<close>

theorem clear_leaves_staged_batches:
  "snd (clearRedisRecords stagedDkkStore 1 ''job_1'') = 0 \<and>
   getImportDataFromRedis (fst (clearRedisRecords stagedDkkStore 1 ''job_1'')) 2 ''job_1''
       ProductCreate = productsCreate opsDkk \<and>
   getImportDataFromRedis (fst (clearRedisRecords stagedDkkStore 1 ''job_1'')) 2 ''job_1''
       VariantCreate = variantsCreate opsDkk \<and>
   getImportDataFromRedis (fst (clearRedisRecords stagedDkkStore 1 ''job_1'')) 2 ''job_1''
       VariantUpdate = variantsUpdate opsDkk \<and>
   productsCreate opsDkk \<noteq> []"
  by code_simp

section \<open>Properties of the applier\<close>

lemma runOps_map: "runOps svc (map (Pair op) rows) st = rowLoop (importBody svc op) rows st"
  by (induction rows arbitrary: st) (auto split: sum.splits)

lemma runOps_append:
  "runOps svc (xs @ ys) st =
     (case runOps svc xs st of Inl x \<Rightarrow> Inl x | Inr st' \<Rightarrow> runOps svc ys st')"
  by (induction xs arbitrary: st) (auto split: sum.splits)

lemma processJob_runOps:
  "processJob svc store now batchJobId st =
     (case runOps svc (stagedOps store now batchJobId) st of
        Inl x \<Rightarrow> Inl x
      | Inr st' \<Rightarrow> Inr (finalize st'))"
proof -
  have b: "createProductBody svc = importBody svc ProductCreate"
    "updateProductBody svc = importBody svc ProductUpdate"
    "createVariantBody svc = importBody svc VariantCreate"
    "updateVariantBody svc = importBody svc VariantUpdate"
    by (simp_all add: importBody_def)
  show ?thesis
    unfolding processJob_def createProducts_def updateProducts_def createVariants_def
      updateVariants_def stagedOps_def b runOps_map[symmetric] runOps_append
    by (simp split: sum.splits)
qed

lemma updateProgress_effect:
  "processedCounter (updateProgress st) = Suc (processedCounter st) \<and>
   contextUpdates (updateProgress st)
     = contextUpdates st @ (if Suc (processedCounter st) mod 100 = 0
                            then [Some (Suc (processedCounter st))] else []) \<and>
   ctx_total (jobContext (updateProgress st)) = ctx_total (jobContext st) \<and>
   world (updateProgress st) = world st"
  by (simp add: updateProgress_def BATCH_SIZE_def batchJobUpdateProgress_def Let_def)

lemma runOps_progress:
  "runOps svc ops st = Inr st' \<Longrightarrow>
     processedCounter st' = processedCounter st + length ops \<and>
     contextUpdates st' = contextUpdates st
        @ map Some (filter (\<lambda>m. m mod 100 = 0)
                      [processedCounter st + 1 ..< processedCounter st + length ops + 1]) \<and>
     ctx_total (jobContext st') = ctx_total (jobContext st)"
proof (induction ops arbitrary: st)
  case Nil
  then show ?case by simp
next
  case (Cons x ops)
  obtain op r where x: "x = (op, r)" by (cases x)
  from Cons.prems x obtain w where w: "importBody svc op r (world st) = Inr w"
    and rest: "runOps svc ops (updateProgress (st\<lparr>world := w\<rparr>)) = Inr st'"
    by (auto split: sum.splits)
  let ?c = "processedCounter st"
  have up: "[?c + 1 ..< ?c + length (x # ops) + 1] = Suc ?c # [Suc ?c + 1 ..< Suc ?c + length ops + 1]"
    by (subst upt_rec) simp
  from Cons.IH[OF rest] updateProgress_effect[of "st\<lparr>world := w\<rparr>"]
  show ?case unfolding up by auto
qed

text \<open>
  Claim C2. When the guarded body of a staged row fails, in whichever of the four phases,
  after the staged operations before it have succeeded, the job ends with the
  invalid-data error whose message is the fixed text of \<open>handleImportError_\<close> filled
  with that row's product id, product handle, variant id and variant sku, each as the
  row holds it (\<open>undefined\<close> for a field the row lacks). The state is the one the
  preceding rows left: the rows after the failing one, the later phases and the final
  progress write leave no trace in it.
\<close>

theorem fail_fast_diagnostic:
  assumes "stagedOps store now batchJobId = pre @ (op, r) # post"
    and "runOps svc pre st = Inr st1"
    and "importBody svc op r (world st1) = Inl e"
  shows "processJob svc store now batchJobId st
           = Inl (MedusaError INVALID_DATA
                    (''Error while processing row with:'' @ [CHR 0x0A] @
                  ''      product id: '' @ jsToString (rowGet r ''product.id'') @ '','' @ [CHR 0x0A] @
                  ''      product handle: '' @ jsToString (rowGet r ''product.handle'') @ '',''
                    @ [CHR 0x0A] @
                  ''      variant id: '' @ jsToString (rowGet r ''variant.id'') @ [CHR 0x0A] @
                  ''      variant sku: '' @ jsToString (rowGet r ''variant.sku'')),
                  st1)"
  using assms
  by (simp add: processJob_runOps runOps_append handleImportError_def importErrorMessage_def)

text \<open>
  The claim at a job whose second product-create row is refused by the product service:
  the diagnostic names that row; one row was processed, the third product row and the
  two variant rows were not.
\<close>

theorem fail_fast_diagnostic_witness:
  "processJob testServices brokenJobStore 10 ''job_1'' (freshApplier (Some 5))
     = Inl (MedusaError INVALID_DATA
              (''Error while processing row with:'' @ [CHR 0x0A] @
               ''      product id: prod_2,'' @ [CHR 0x0A] @
               ''      product handle: broken-product,'' @ [CHR 0x0A] @
               ''      variant id: undefined'' @ [CHR 0x0A] @
               ''      variant sku: sku-2''),
            afterFirstRow)"
proof -
  have h1: "stagedOps brokenJobStore 10 ''job_1''
      = [(ProductCreate, rowGood)] @ (ProductCreate, rowBroken)
          # [(ProductCreate, rowLater), (VariantCreate, rowGood), (VariantCreate, rowLater)]"
    by code_simp
  have h2: "runOps testServices [(ProductCreate, rowGood)] (freshApplier (Some 5)) = Inr afterFirstRow"
    by code_simp
  have h3: "importBody testServices ProductCreate rowBroken (world afterFirstRow)
      = Inl (ServiceError ''Product with handle broken-product already exists'')"
    by code_simp
  have m: "''Error while processing row with:'' @ [CHR 0x0A] @
           ''      product id: '' @ jsToString (rowGet rowBroken ''product.id'') @ '','' @ [CHR 0x0A] @
           ''      product handle: '' @ jsToString (rowGet rowBroken ''product.handle'') @ '',''
             @ [CHR 0x0A] @
           ''      variant id: '' @ jsToString (rowGet rowBroken ''variant.id'') @ [CHR 0x0A] @
           ''      variant sku: '' @ jsToString (rowGet rowBroken ''variant.sku'')
         = ''Error while processing row with:'' @ [CHR 0x0A] @
           ''      product id: prod_2,'' @ [CHR 0x0A] @
           ''      product handle: broken-product,'' @ [CHR 0x0A] @
           ''      variant id: undefined'' @ [CHR 0x0A] @
           ''      variant sku: sku-2''"
    by code_simp
  show ?thesis unfolding fail_fast_diagnostic[OF h1 h2 h3] m by (rule refl)
qed

text \<open>
  Claim C5. After a row, \<open>updateProgress_\<close> persists the counter exactly when the counter
  it has just incremented is a multiple of 100. On a job that completes, the progress
  values persisted to the job context are therefore the values of the processed-row
  counter that are multiples of 100, in order, one write for each and none for any other
  row, followed by one final write of the job's total, which is the progress the context
  then holds. With a counter that starts at 0 the writes are 100, 200, 300 and so on.
\<close>

theorem progress_cadence:
  assumes "processJob svc store now batchJobId st = Inr st'"
  shows "contextUpdates (updateProgress s)
           = contextUpdates s
             @ (if (processedCounter s + 1) mod 100 = 0 then [Some (processedCounter s + 1)]
                else []) \<and>
         contextUpdates st' =
           contextUpdates st
           @ map Some (filter (\<lambda>m. m mod 100 = 0)
               [processedCounter st + 1 ..<
                  processedCounter st + length (stagedOps store now batchJobId) + 1])
           @ [ctx_total (jobContext st)] \<and>
         ctx_progress (jobContext st') = ctx_total (jobContext st)"
proof -
  from assms obtain st4 where run: "runOps svc (stagedOps store now batchJobId) st = Inr st4"
    and fin: "st' = finalize st4"
    by (auto simp: processJob_runOps split: sum.splits)
  from runOps_progress[OF run] fin updateProgress_effect[of s] show ?thesis
    by (simp add: finalize_def batchJobUpdateProgress_def)
qed

text \<open>
  The claim at a job of 201 staged rows on a fresh strategy: progress is written at rows
  100 and 200 and once more, as the total 201, at completion.
\<close>

theorem progress_cadence_witness:
  "processJob testServices bigJobStore 10 ''job_2'' (freshApplier (Some 201)) = Inr afterBigJob \<and>
   contextUpdates afterBigJob = [Some 100, Some 200, Some 201] \<and>
   ctx_progress (jobContext afterBigJob) = Some 201"
proof -
  have h: "processJob testServices bigJobStore 10 ''job_2'' (freshApplier (Some 201)) = Inr afterBigJob"
    by code_simp
  have n: "length (stagedOps bigJobStore 10 ''job_2'') = 201"
    by code_simp
  have f: "map Some (filter (\<lambda>m. m mod 100 = 0) [0 + 1 ..< 0 + 201 + 1]) = [Some 100, Some (200::nat)]"
    by code_simp
  have c: "processedCounter (freshApplier (Some 201)) = 0" "contextUpdates (freshApplier (Some 201)) = []"
    "ctx_total (jobContext (freshApplier (Some 201))) = Some 201"
    by (simp_all add: freshApplier_def)
  show ?thesis
    using progress_cadence[OF h, where s = "freshApplier (Some 201)"] h unfolding n c f by simp
qed

section \<open>Properties of the header builder\<close>

lemma mapSet_names: "map fst (mapSet m k d) = setAdd (map fst m) k"
  by (induction m) (force simp: setAdd_def)+

lemma appendMoneyAmountDescriptor_names:
  "map fst (appendMoneyAmountDescriptor pd m)
     = fold (\<lambda>name names. setAdd names name) (priceColumnNames pd) (map fst m)"
  by (simp add: appendMoneyAmountDescriptor_def priceColumnNames_def mapSet_names Let_def
        split: option.splits)

lemma appendMoneyAmountDescriptors_names:
  "map fst (appendMoneyAmountDescriptors ps m)
     = fold (\<lambda>name names. setAdd names name) (concat (map priceColumnNames ps)) (map fst m)"
  unfolding appendMoneyAmountDescriptors_def
  by (induction ps arbitrary: m) (simp_all add: appendMoneyAmountDescriptor_names)

lemma option_pairs_names:
  "map fst (fold (\<lambda>i m'. mapSet (mapSet m' (a i) (da i)) (b i) (db i)) xs m)
     = fold (\<lambda>name names. setAdd names name) (concat (map (\<lambda>i. [a i, b i]) xs)) (map fst m)"
  by (induction xs arbitrary: m) (simp_all add: mapSet_names)

lemma image_names:
  "map fst (fold (\<lambda>i m'. mapSet m' (a i) (da i)) xs m)
     = fold (\<lambda>name names. setAdd names name) (map a xs) (map fst m)"
  by (induction xs arbitrary: m) (simp_all add: mapSet_names)

lemma appendOptionsDescriptors_names:
  "map fst (appendOptionsDescriptors n m)
     = fold (\<lambda>name names. setAdd names name) (optionColumnNames n) (map fst m)"
  unfolding appendOptionsDescriptors_def optionColumnNames_def by (rule option_pairs_names)

lemma appendImagesDescriptors_names:
  "map fst (appendImagesDescriptors n m)
     = fold (\<lambda>name names. setAdd names name) (imageColumnNames n) (map fst m)"
  unfolding appendImagesDescriptors_def imageColumnNames_def by (rule image_names)

lemma buildHeader_names:
  "fst (buildHeader (Some sh) m)
     = joinWith DELIMITER
         (fold (\<lambda>name names. setAdd names name)
            (concat (map priceColumnNames (prices sh))
               @ optionColumnNames (dynamicOptionColumnCount sh)
               @ imageColumnNames (dynamicImageColumnCount sh))
            (map fst m))
       @ NEWLINE"
  by (simp add: buildHeader_def Let_def appendImagesDescriptors_names
        appendOptionsDescriptors_names appendMoneyAmountDescriptors_names)

lemma fold_setAdd_length:
  "length (fold (\<lambda>name names. setAdd names name) ns names) \<le> length names + length ns"
proof (induction ns arbitrary: names)
  case Nil
  then show ?case by simp
next
  case (Cons n ns)
  have "length (setAdd names n) \<le> Suc (length names)" by (simp add: setAdd_def)
  with Cons[of "setAdd names n"] show ?case by simp
qed

lemma fold_setAdd_fresh:
  "distinct ns \<Longrightarrow> set ns \<inter> set names = {} \<Longrightarrow>
     fold (\<lambda>name names. setAdd names name) ns names = names @ ns"
proof (induction ns arbitrary: names)
  case Nil
  then show ?case by simp
next
  case (Cons n ns)
  have "setAdd names n = names @ [n]" using Cons.prems by (simp add: setAdd_def)
  moreover have "fold (\<lambda>name names. setAdd names name) ns (names @ [n]) = (names @ [n]) @ ns"
    using Cons.prems by (intro Cons.IH) auto
  ultimately show ?case by simp
qed

lemma priceColumnNames_length: "length (priceColumnNames pd) \<le> 2"
  by (simp add: priceColumnNames_def split: option.splits)

lemma concat_names_length: "length (concat (map priceColumnNames ps)) \<le> 2 * length ps"
proof (induction ps)
  case Nil
  then show ?case by simp
next
  case (Cons p ps)
  with priceColumnNames_length[of p] show ?case by simp
qed

lemma currencyOnly_names: "currencyOnly pd \<Longrightarrow> length (priceColumnNames pd) = 1"
  by (auto simp: currencyOnly_def priceColumnNames_def split: option.splits)

lemma currencyOnly_concat:
  "\<forall>pd \<in> set ps. currencyOnly pd \<Longrightarrow> length (concat (map priceColumnNames ps)) = length ps"
  by (induction ps) (simp_all add: currencyOnly_names)

lemma priceColumnNames_count:
  "length (priceColumnNames pd)
     = (if hasCurrencyCode pd then 1 else 0) + (if pd_region pd = None then 0 else 1)"
  by (simp add: priceColumnNames_def hasCurrencyCode_def split: option.splits)

lemma both_concat:
  "\<forall>pd \<in> set ps. hasCurrencyCode pd \<and> pd_region pd \<noteq> None \<Longrightarrow>
     length (concat (map priceColumnNames ps)) = 2 * length ps"
  by (induction ps) (simp_all add: priceColumnNames_count)

lemma both_two_columns:
  assumes "pd_currency_code pd = Some code" and "code \<noteq> []" and "pd_region pd = Some r"
    and "currencyColumnName pd code \<noteq> regionColumnName pd r"
    and "currencyColumnName pd code \<notin> set (map fst m)"
    and "regionColumnName pd r \<notin> set (map fst m)"
  shows "map fst (appendMoneyAmountDescriptor pd m)
           = map fst m @ [currencyColumnName pd code, regionColumnName pd r]"
  using assms
  by (simp add: appendMoneyAmountDescriptor_def Let_def mapSet_names setAdd_def)

lemma priceKey_region:
  "ma_region price = Some rg \<Longrightarrow>
     pd_region (priceKey price) = Some \<lparr>pr_name = region_name rg, pr_id = region_id rg\<rparr> \<and>
     pd_currency_code (priceKey price)
       = Some (case ma_currency_code price of None \<Rightarrow> region_currency_code rg | Some c \<Rightarrow> c)"
  by (simp add: priceKey_def split: option.splits)

text \<open>
  Claim C8, as stated, at one price key, the key the discoverer records for a price of
  region Denmark (the key takes its currency code from the region): the header builder
  appends two price columns for it, a currency column and a region column.
\<close>

theorem region_key_two_columns_counterexample:
  "priceKey (denmarkPrice 130) = keyDenmark \<and>
   map fst (appendMoneyAmountDescriptors [keyDenmark] staticColumns)
     = [''Product Handle'', ''Variant SKU'',
        ''Price DKK (reg_HMnixPlOicAs7aBlXuchAGxd)'',
        ''Price denmark (reg_HMnixPlOicAs7aBlXuchAGxd)'']"
  by code_simp

text \<open>
  Claim C8, amended. The header is the names of the descriptor map joined by semicolons:
  the earlier columns, then the names the price keys ask for, then an option-name and an
  option-value column per option slot, then an image column per image slot, a name that
  is a column already keeping its place and adding none. For each price key of the shape,
  in order, the header builder sets a currency column when the key has a non-empty
  currency code and a region column when the key has a region: a key asks for one name
  per test it passes, so none, one or two, and the price columns added are at most two
  per key. When all the names asked for are pairwise distinct and new, they are appended
  in order after the columns that were there; then a shape whose keys all have a
  non-empty currency code and no region gets exactly one price column per key, and a
  shape whose keys all have a non-empty currency code and a region gets exactly two per
  key. A single key with a non-empty currency code and a region adds exactly its two
  columns whenever its two names differ and neither is a column already. The key the
  discoverer records for a price with a region has that region and the price's currency
  code, or the region's when the price has none.
\<close>

theorem price_columns_of_shape:
  "fst (buildHeader (Some sh) m)
     = joinWith DELIMITER
         (fold (\<lambda>name names. setAdd names name)
            (concat (map priceColumnNames (prices sh))
               @ optionColumnNames (dynamicOptionColumnCount sh)
               @ imageColumnNames (dynamicImageColumnCount sh))
            (map fst m))
       @ NEWLINE \<and>
   map fst (appendMoneyAmountDescriptors (prices sh) m)
     = fold (\<lambda>name names. setAdd names name) (concat (map priceColumnNames (prices sh)))
         (map fst m) \<and>
   length (appendMoneyAmountDescriptors (prices sh) m) \<le> length m + 2 * length (prices sh) \<and>
   (distinct (concat (map priceColumnNames (prices sh))) \<and>
    set (concat (map priceColumnNames (prices sh))) \<inter> set (map fst m) = {} \<longrightarrow>
      map fst (appendMoneyAmountDescriptors (prices sh) m)
        = map fst m @ concat (map priceColumnNames (prices sh))) \<and>
   ((\<forall>pd \<in> set (prices sh). currencyOnly pd) \<longrightarrow>
      length (concat (map priceColumnNames (prices sh))) = length (prices sh)) \<and>
   length (priceColumnNames pd)
     = (if hasCurrencyCode pd then 1 else 0) + (if pd_region pd = None then 0 else 1) \<and>
   ((\<forall>pd \<in> set (prices sh). hasCurrencyCode pd \<and> pd_region pd \<noteq> None) \<longrightarrow>
      length (concat (map priceColumnNames (prices sh))) = 2 * length (prices sh)) \<and>
   (pd_currency_code pd = Some code \<and> code \<noteq> [] \<and> pd_region pd = Some r \<and>
    currencyColumnName pd code \<noteq> regionColumnName pd r \<and>
    currencyColumnName pd code \<notin> set (map fst m) \<and>
    regionColumnName pd r \<notin> set (map fst m) \<longrightarrow>
      map fst (appendMoneyAmountDescriptor pd m)
        = map fst m @ [currencyColumnName pd code, regionColumnName pd r]) \<and>
   (ma_region price = Some rg \<longrightarrow>
      pd_region (priceKey price) = Some \<lparr>pr_name = region_name rg, pr_id = region_id rg\<rparr> \<and>
      pd_currency_code (priceKey price)
        = Some (case ma_currency_code price of
                  None \<Rightarrow> region_currency_code rg
                | Some c \<Rightarrow> c))"
proof -
  have a: "map fst (appendMoneyAmountDescriptors (prices sh) m)
     = fold (\<lambda>name names. setAdd names name) (concat (map priceColumnNames (prices sh)))
         (map fst m)"
    by (rule appendMoneyAmountDescriptors_names)
  have "length (map fst (appendMoneyAmountDescriptors (prices sh) m))
      \<le> length (map fst m) + length (concat (map priceColumnNames (prices sh)))"
    unfolding a by (rule fold_setAdd_length)
  with concat_names_length[of "prices sh"]
  have b: "length (appendMoneyAmountDescriptors (prices sh) m)
      \<le> length m + 2 * length (prices sh)"
    by simp
  have c: "distinct (concat (map priceColumnNames (prices sh))) \<and>
      set (concat (map priceColumnNames (prices sh))) \<inter> set (map fst m) = {} \<longrightarrow>
      map fst (appendMoneyAmountDescriptors (prices sh) m)
        = map fst m @ concat (map priceColumnNames (prices sh))"
    unfolding a using fold_setAdd_fresh by blast
  have d: "(\<forall>pd \<in> set (prices sh). currencyOnly pd) \<longrightarrow>
      length (concat (map priceColumnNames (prices sh))) = length (prices sh)"
    using currencyOnly_concat by blast
  have e: "length (priceColumnNames pd)
     = (if hasCurrencyCode pd then 1 else 0) + (if pd_region pd = None then 0 else 1)"
    by (rule priceColumnNames_count)
  have f: "(\<forall>pd \<in> set (prices sh). hasCurrencyCode pd \<and> pd_region pd \<noteq> None) \<longrightarrow>
      length (concat (map priceColumnNames (prices sh))) = 2 * length (prices sh)"
    using both_concat by blast
  have g: "pd_currency_code pd = Some code \<and> code \<noteq> [] \<and> pd_region pd = Some r \<and>
    currencyColumnName pd code \<noteq> regionColumnName pd r \<and>
    currencyColumnName pd code \<notin> set (map fst m) \<and>
    regionColumnName pd r \<notin> set (map fst m) \<longrightarrow>
      map fst (appendMoneyAmountDescriptor pd m)
        = map fst m @ [currencyColumnName pd code, regionColumnName pd r]"
    using both_two_columns by blast
  have h: "ma_region price = Some rg \<longrightarrow>
      pd_region (priceKey price) = Some \<lparr>pr_name = region_name rg, pr_id = region_id rg\<rparr> \<and>
      pd_currency_code (priceKey price)
        = Some (case ma_currency_code price of
                  None \<Rightarrow> region_currency_code rg
                | Some c \<Rightarrow> c)"
    using priceKey_region by blast
  note i = buildHeader_names[of sh m]
  show ?thesis
    by (rule conjI[OF i conjI[OF a conjI[OF b conjI[OF c conjI[OF d conjI[OF e
          conjI[OF f conjI[OF g h]]]]]]]])
qed

text \<open>
  The amended claim at two shapes. With the keys of the currencies USD and DKK, one
  option slot and one image slot: one price column for each key, after the two static
  columns. With the key of a price of region Denmark, which has the currency code of the
  region and the region: two price columns for the one key.
\<close>

theorem price_columns_of_shape_witness:
  "fst (buildHeader (Some shapeUsdDkk) staticColumns)
     = ''Product Handle;Variant SKU;Price USD ;Price DKK ;Option 1 Name;Option 1 Value;Image 1 Url''
       @ NEWLINE \<and>
   map fst (appendMoneyAmountDescriptors (prices shapeUsdDkk) staticColumns)
     = [''Product Handle'', ''Variant SKU'', ''Price USD '', ''Price DKK ''] \<and>
   length (concat (map priceColumnNames (prices shapeUsdDkk))) = length (prices shapeUsdDkk) \<and>
   priceKey (denmarkPrice 130) = keyDenmark \<and>
   length (concat (map priceColumnNames (prices shapeDenmark))) = 2 * length (prices shapeDenmark) \<and>
   map fst (appendMoneyAmountDescriptor keyDenmark staticColumns)
     = [''Product Handle'', ''Variant SKU'',
        ''Price DKK (reg_HMnixPlOicAs7aBlXuchAGxd)'',
        ''Price denmark (reg_HMnixPlOicAs7aBlXuchAGxd)'']"
proof -
  have d: "distinct (concat (map priceColumnNames (prices shapeUsdDkk))) \<and>
      set (concat (map priceColumnNames (prices shapeUsdDkk))) \<inter> set (map fst staticColumns) = {}"
    by code_simp
  have c: "\<forall>pd \<in> set (prices shapeUsdDkk). currencyOnly pd"
    by code_simp
  have n: "map fst staticColumns @ concat (map priceColumnNames (prices shapeUsdDkk))
      = [''Product Handle'', ''Variant SKU'', ''Price USD '', ''Price DKK '']"
    by code_simp
  have h: "joinWith DELIMITER
         (fold (\<lambda>name names. setAdd names name)
            (concat (map priceColumnNames (prices shapeUsdDkk))
               @ optionColumnNames (dynamicOptionColumnCount shapeUsdDkk)
               @ imageColumnNames (dynamicImageColumnCount shapeUsdDkk))
            (map fst staticColumns))
       @ NEWLINE
      = ''Product Handle;Variant SKU;Price USD ;Price DKK ;Option 1 Name;Option 1 Value;Image 1 Url''
        @ NEWLINE"
    by code_simp
  note t = price_columns_of_shape[of shapeUsdDkk staticColumns]
  have t1: "fst (buildHeader (Some shapeUsdDkk) staticColumns)
     = ''Product Handle;Variant SKU;Price USD ;Price DKK ;Option 1 Name;Option 1 Value;Image 1 Url''
       @ NEWLINE"
    using t[THEN conjunct1] h by (simp only:)
  have t3: "map fst (appendMoneyAmountDescriptors (prices shapeUsdDkk) staticColumns)
      = map fst staticColumns @ concat (map priceColumnNames (prices shapeUsdDkk))"
    using t[THEN conjunct2, THEN conjunct2, THEN conjunct2, THEN conjunct1] d by blast
  have t4: "length (concat (map priceColumnNames (prices shapeUsdDkk))) = length (prices shapeUsdDkk)"
    using t[THEN conjunct2, THEN conjunct2, THEN conjunct2, THEN conjunct2, THEN conjunct1] c
    by blast
  from t3 n have t3': "map fst (appendMoneyAmountDescriptors (prices shapeUsdDkk) staticColumns)
      = [''Product Handle'', ''Variant SKU'', ''Price USD '', ''Price DKK '']"
    by (simp only:)
  have k: "priceKey (denmarkPrice 130) = keyDenmark"
    by code_simp
  have b: "\<forall>pd \<in> set (prices shapeDenmark). hasCurrencyCode pd \<and> pd_region pd \<noteq> None"
    by code_simp
  have q: "pd_currency_code keyDenmark = Some ''DKK'' \<and> ''DKK'' \<noteq> [] \<and>
      pd_region keyDenmark
        = Some \<lparr>pr_name = ''Denmark'', pr_id = ''reg_HMnixPlOicAs7aBlXuchAGxd''\<rparr> \<and>
      currencyColumnName keyDenmark ''DKK''
        \<noteq> regionColumnName keyDenmark
            \<lparr>pr_name = ''Denmark'', pr_id = ''reg_HMnixPlOicAs7aBlXuchAGxd''\<rparr> \<and>
      currencyColumnName keyDenmark ''DKK'' \<notin> set (map fst staticColumns) \<and>
      regionColumnName keyDenmark
          \<lparr>pr_name = ''Denmark'', pr_id = ''reg_HMnixPlOicAs7aBlXuchAGxd''\<rparr>
        \<notin> set (map fst staticColumns)"
    by code_simp
  have v: "map fst staticColumns
        @ [currencyColumnName keyDenmark ''DKK'',
           regionColumnName keyDenmark
             \<lparr>pr_name = ''Denmark'', pr_id = ''reg_HMnixPlOicAs7aBlXuchAGxd''\<rparr>]
      = [''Product Handle'', ''Variant SKU'',
         ''Price DKK (reg_HMnixPlOicAs7aBlXuchAGxd)'',
         ''Price denmark (reg_HMnixPlOicAs7aBlXuchAGxd)'']"
    by code_simp
  note u = price_columns_of_shape[of shapeDenmark staticColumns keyDenmark "''DKK''"
      "\<lparr>pr_name = ''Denmark'', pr_id = ''reg_HMnixPlOicAs7aBlXuchAGxd''\<rparr>"]
  have u7: "length (concat (map priceColumnNames (prices shapeDenmark)))
      = 2 * length (prices shapeDenmark)"
    using u[THEN conjunct2, THEN conjunct2, THEN conjunct2, THEN conjunct2, THEN conjunct2,
        THEN conjunct2, THEN conjunct1] b by blast
  have u8: "map fst (appendMoneyAmountDescriptor keyDenmark staticColumns)
      = map fst staticColumns
        @ [currencyColumnName keyDenmark ''DKK'',
           regionColumnName keyDenmark
             \<lparr>pr_name = ''Denmark'', pr_id = ''reg_HMnixPlOicAs7aBlXuchAGxd''\<rparr>]"
    using u[THEN conjunct2, THEN conjunct2, THEN conjunct2, THEN conjunct2, THEN conjunct2,
        THEN conjunct2, THEN conjunct2, THEN conjunct1] q by blast
  from u8 v have u8': "map fst (appendMoneyAmountDescriptor keyDenmark staticColumns)
      = [''Product Handle'', ''Variant SKU'',
         ''Price DKK (reg_HMnixPlOicAs7aBlXuchAGxd)'',
         ''Price denmark (reg_HMnixPlOicAs7aBlXuchAGxd)'']"
    by (simp only:)
  show ?thesis
    by (rule conjI[OF t1 conjI[OF t3' conjI[OF t4 conjI[OF k conjI[OF u7 u8']]]]])
qed

section \<open>Properties of shape discovery\<close>

lemma scan_options:
  "dynamicOptionColumnCount (fold scanProduct ps sh)
     = fold (\<lambda>p n. max n (length (p_options p))) ps (dynamicOptionColumnCount sh)"
  by (induction ps arbitrary: sh) (simp_all add: scanProduct_def)

lemma scan_images:
  "dynamicImageColumnCount (fold scanProduct ps sh)
     = fold (\<lambda>p n. max n (length (p_images p))) ps (dynamicImageColumnCount sh)"
  by (induction ps arbitrary: sh) (simp_all add: scanProduct_def)

lemma fold_max_perm:
  "mset ps = mset qs \<Longrightarrow>
     fold (\<lambda>p n. max n (f p)) ps (a::nat) = fold (\<lambda>p n. max n (f p)) qs a"
proof -
  assume "mset ps = mset qs"
  then have "fold (\<lambda>p n. max n (f p)) ps = fold (\<lambda>p n. max n (f p)) qs"
    by (intro fold_multiset_equiv) (auto simp: fun_eq_iff)
  then show ?thesis by simp
qed

lemma set_setAdd: "set (setAdd xs x) = insert x (set xs)"
  by (auto simp: setAdd_def)

lemma scanVariant_set:
  "set (scanVariant v acc) = set acc \<union> priceKey ` set (pv_prices v)"
proof -
  have "\<And>acc. set (fold (\<lambda>price acc. setAdd acc (priceKey price)) xs acc) = set acc \<union> priceKey ` set xs" for xs
    by (induction xs) (auto simp: set_setAdd)
  then show ?thesis by (simp add: scanVariant_def)
qed

lemma scanVariants_set:
  "set (fold scanVariant vs acc) = set acc \<union> (\<Union>v \<in> set vs. priceKey ` set (pv_prices v))"
  by (induction vs arbitrary: acc) (auto simp: scanVariant_set)

lemma scan_prices:
  "set (prices (fold scanProduct ps sh)) = set (prices sh) \<union> (\<Union>p \<in> set ps. productKeys p)"
  by (induction ps arbitrary: sh) (auto simp: scanProduct_def scanVariants_set productKeys_def)

lemma scan_perm:
  assumes "mset ps = mset qs"
  shows "dynamicOptionColumnCount (fold scanProduct ps sh) = dynamicOptionColumnCount (fold scanProduct qs sh)"
    and "dynamicImageColumnCount (fold scanProduct ps sh) = dynamicImageColumnCount (fold scanProduct qs sh)"
    and "set (prices (fold scanProduct ps sh)) = set (prices (fold scanProduct qs sh))"
proof -
  show "dynamicOptionColumnCount (fold scanProduct ps sh) = dynamicOptionColumnCount (fold scanProduct qs sh)"
    unfolding scan_options by (rule fold_max_perm[OF assms])
  show "dynamicImageColumnCount (fold scanProduct ps sh) = dynamicImageColumnCount (fold scanProduct qs sh)"
    unfolding scan_images by (rule fold_max_perm[OF assms])
  have "set ps = set qs" using assms by (rule mset_eq_setD)
  then show "set (prices (fold scanProduct ps sh)) = set (prices (fold scanProduct qs sh))"
    by (simp add: scan_prices)
qed

lemma datasetPage_list:
  "datasetPage ds (cfg\<lparr>cfg_skip := Some offset, cfg_take := Some n\<rparr>) = List.take n (drop offset ds)"
  by (simp add: datasetPage_def)

lemma take_drop_length: "List.take n xs @ drop (length (List.take n xs)) xs = xs"
  by (cases "n \<le> length xs") (simp_all add: min_def)

lemma page_split:
  "List.take n (drop offset ds) @ drop (offset + length (List.take n (drop offset ds))) ds = drop offset ds"
proof -
  have "drop (offset + length (List.take n (drop offset ds))) ds
      = drop (length (List.take n (drop offset ds))) (drop offset ds)"
    by (simp only: drop_drop add.commute)
  then show ?thesis by (simp only: take_drop_length)
qed

lemma discoverLoop_dataset:
  "discoverLoop (datasetService ds) cfg (length ds) offset [] sh
     = Some (fold scanProduct (drop offset ds) sh)"
proof (induction "length ds - offset" arbitrary: offset sh rule: less_induct)
  case less
  show ?case
  proof (cases "offset < length ds")
    case False
    then show ?thesis by (subst discoverLoop.simps) simp
  next
    case True
    let ?page = "List.take EXPORT_BATCH_SIZE (drop offset ds)"
    have ne: "?page \<noteq> []" using True by (simp add: EXPORT_BATCH_SIZE_def)
    then have pos: "0 < length ?page" by simp
    have lt: "length ds - (offset + length ?page) < length ds - offset"
      using True pos by linarith
    have "discoverLoop (datasetService ds) cfg (length ds) offset [] sh
        = discoverLoop (datasetService ds) cfg (length ds) (offset + length ?page) []
            (fold scanProduct ?page sh)"
      using True
      by (subst discoverLoop.simps) (simp add: datasetService_def datasetPage_list Let_def)
    also have "\<dots> = Some (fold scanProduct (drop (offset + length ?page) ds) (fold scanProduct ?page sh))"
      by (rule less[OF lt])
    also have "\<dots> = Some (fold scanProduct (?page @ drop (offset + length ?page) ds) sh)"
      by simp
    also have "\<dots> = Some (fold scanProduct (drop offset ds) sh)"
      by (simp only: page_split)
    finally show ?thesis .
  qed
qed

lemma firstPage_split:
  "datasetPage ds (configOf job) @ drop (skipOf job + length (datasetPage ds (configOf job))) ds
     = drop (skipOf job) ds"
proof (cases "cfg_take (configOf job)")
  case None
  then show ?thesis by (simp add: datasetPage_def skipOf_def)
next
  case (Some t)
  then have "datasetPage ds (configOf job) = List.take t (drop (skipOf job) ds)"
    by (simp add: datasetPage_def skipOf_def)
  then show ?thesis using page_split[of t "skipOf job" ds] by simp
qed

lemma preProcess_dataset:
  "exportPreProcessBatchJob (datasetService ds) job
     = Some (job\<lparr>job_context := (job_context job)
               \<lparr>shape := Some (fold scanProduct (drop (skipOf job) ds)
                   \<lparr>dynamicImageColumnCount = 0, dynamicOptionColumnCount = 0, prices = []\<rparr>)\<rparr>\<rparr>)"
proof -
  let ?sh0 = "\<lparr>dynamicImageColumnCount = 0, dynamicOptionColumnCount = 0, prices = []\<rparr>"
  let ?P = "datasetPage ds (configOf job)"
  have "discoverLoop (datasetService ds) (configOf job) (length ds) (skipOf job) ?P ?sh0
      = Some (fold scanProduct (drop (skipOf job) ds) ?sh0)"
  proof (cases "?P = []")
    case True
    then show ?thesis by (simp add: discoverLoop_dataset)
  next
    case False
    show ?thesis
    proof (cases "skipOf job < length ds")
      case True
      have "discoverLoop (datasetService ds) (configOf job) (length ds) (skipOf job) ?P ?sh0
          = discoverLoop (datasetService ds) (configOf job) (length ds) (skipOf job + length ?P) []
              (fold scanProduct ?P ?sh0)"
        using True False by (subst discoverLoop.simps) (simp add: Let_def)
      also have "\<dots> = Some (fold scanProduct (?P @ drop (skipOf job + length ?P) ds) ?sh0)"
        by (simp add: discoverLoop_dataset)
      finally show ?thesis by (simp only: firstPage_split)
    next
      case False
      then show ?thesis by (subst discoverLoop.simps) simp
    qed
  qed
  then show ?thesis
    by (simp add: exportPreProcessBatchJob_def datasetService_def)
qed

text \<open>
  Claim C7. Over a dataset the discoverer sees the products from the job's \<open>skip\<close>
  onwards, page by page. For two datasets whose products seen are the same up to their
  order, both runs return, with the same \<open>dynamicOptionColumnCount\<close>, the same
  \<open>dynamicImageColumnCount\<close> and the same set of price keys.
\<close>

theorem shape_order_independent:
  assumes "mset (drop (skipOf job) ds) = mset (drop (skipOf job) ds')"
  shows "\<exists>job1 job2 sh1 sh2.
           exportPreProcessBatchJob (datasetService ds) job = Some job1 \<and>
           exportPreProcessBatchJob (datasetService ds') job = Some job2 \<and>
           shape (job_context job1) = Some sh1 \<and> shape (job_context job2) = Some sh2 \<and>
           dynamicOptionColumnCount sh1 = dynamicOptionColumnCount sh2 \<and>
           dynamicImageColumnCount sh1 = dynamicImageColumnCount sh2 \<and>
           set (prices sh1) = set (prices sh2)"
  using scan_perm[OF assms] by (simp add: preProcess_dataset)

text \<open>
  The claim at three products and their reverse order: both shapes count two images and
  two options and hold the keys of currency DKK and of region Denmark, listed in the
  order they were met.
\<close>

theorem shape_order_independent_witness:
  "map_option (\<lambda>j. shape (job_context j))
       (exportPreProcessBatchJob (datasetService [productA, productB, productC]) plainJob)
     = Some (Some \<lparr>dynamicImageColumnCount = 2, dynamicOptionColumnCount = 2,
                    prices = [keyDkk, keyDenmark]\<rparr>) \<and>
   map_option (\<lambda>j. shape (job_context j))
       (exportPreProcessBatchJob (datasetService [productC, productB, productA]) plainJob)
     = Some (Some \<lparr>dynamicImageColumnCount = 2, dynamicOptionColumnCount = 2,
                    prices = [keyDenmark, keyDkk]\<rparr>) \<and>
   (\<exists>job1 job2 sh1 sh2.
           exportPreProcessBatchJob (datasetService [productA, productB, productC]) plainJob
             = Some job1 \<and>
           exportPreProcessBatchJob (datasetService [productC, productB, productA]) plainJob
             = Some job2 \<and>
           shape (job_context job1) = Some sh1 \<and> shape (job_context job2) = Some sh2 \<and>
           dynamicOptionColumnCount sh1 = dynamicOptionColumnCount sh2 \<and>
           dynamicImageColumnCount sh1 = dynamicImageColumnCount sh2 \<and>
           set (prices sh1) = set (prices sh2))"
proof -
  have s: "skipOf plainJob = 0"
    by code_simp
  have h: "mset (drop (skipOf plainJob) [productA, productB, productC])
      = mset (drop (skipOf plainJob) [productC, productB, productA])"
    unfolding s by (simp add: add.commute)
  have e1: "map_option (\<lambda>j. shape (job_context j))
       (exportPreProcessBatchJob (datasetService [productA, productB, productC]) plainJob)
     = Some (Some \<lparr>dynamicImageColumnCount = 2, dynamicOptionColumnCount = 2,
                    prices = [keyDkk, keyDenmark]\<rparr>)"
    by code_simp
  have e2: "map_option (\<lambda>j. shape (job_context j))
       (exportPreProcessBatchJob (datasetService [productC, productB, productA]) plainJob)
     = Some (Some \<lparr>dynamicImageColumnCount = 2, dynamicOptionColumnCount = 2,
                    prices = [keyDenmark, keyDkk]\<rparr>)"
    by code_simp
  show ?thesis
    using shape_order_independent[OF h] e1 e2 by blast
qed

section \<open>Properties of the streaming writer\<close>

lemma linesOf_append: "linesOf m (xs @ ys) = linesOf m xs @ linesOf m ys"
  by (simp add: linesOf_def)

lemma take_pages:
  "List.take (Suc d * n) xs = List.take n xs @ List.take (d * n) (drop n xs)"
  by (simp add: take_add)

lemma writerLoop_cancel:
  assumes "w_updates s + Suc d = k"
    and "statusAfter k = CANCELED"
    and "\<forall>j. w_updates s < j \<and> j < k \<longrightarrow> statusAfter j \<noteq> CANCELED"
    and "w_offset s + d * limit < length ds"
    and "w_products s = [] \<or> w_products s = List.take limit (drop (w_offset s) ds)"
  shows "writerLoop (datasetService ds) statusAfter fileKey m cfg limit (length ds) s
           = Some \<lparr>stream_written =
                     w_written s @ linesOf m (List.take (Suc d * limit) (drop (w_offset s) ds)),
                   stream_ended = True, file_deleted = True,
                   persisted_result =
                     Some \<lparr>file_key = fileKey, result_count = length ds,
                           advancement_count =
                             w_advancementCount s
                               + length (List.take (Suc d * limit) (drop (w_offset s) ds)),
                           result_progress =
                             of_nat (w_advancementCount s
                                     + length (List.take (Suc d * limit) (drop (w_offset s) ds)))
                               / of_nat (length ds)\<rparr>,
                   upload_awaited = False, descriptors = m\<rparr>"
  using assms
proof (induction d arbitrary: s)
  case 0
  let ?page = "List.take limit (drop (w_offset s) ds)"
  have lt: "w_offset s < length ds" using "0.prems"(4) by simp
  have page: "(if w_products s = [] then svc_list (datasetService ds)
                  (cfg\<lparr>cfg_skip := Some (w_offset s), cfg_take := Some limit\<rparr>)
               else w_products s) = ?page"
    using "0.prems"(5) by (auto simp: datasetService_def datasetPage_list)
  have c: "statusAfter (Suc (w_updates s)) = CANCELED" using "0.prems"(1,2) by simp
  show ?case
    by (subst writerLoop.simps) (simp add: lt page c Let_def linesOf_def)
next
  case (Suc d)
  let ?page = "List.take limit (drop (w_offset s) ds)"
  have full: "w_offset s + limit \<le> length ds" using Suc.prems(4) by simp
  then have len: "length ?page = limit" by simp
  have mn: "min (length ds - w_offset s) limit = limit" using full by simp
  have lt: "w_offset s < length ds" using Suc.prems(4) by (cases limit) simp_all
  have page: "(if w_products s = [] then svc_list (datasetService ds)
                  (cfg\<lparr>cfg_skip := Some (w_offset s), cfg_take := Some limit\<rparr>)
               else w_products s) = ?page"
    using Suc.prems(5) by (auto simp: datasetService_def datasetPage_list)
  have nc: "statusAfter (Suc (w_updates s)) \<noteq> CANCELED" using Suc.prems(1,3) by simp
  let ?s1 = "\<lparr>w_offset = w_offset s + limit, w_products = [],
              w_advancementCount = w_advancementCount s + limit,
              w_updates = w_updates s + 1,
              w_written = w_written s @ linesOf m ?page,
              w_result = Some \<lparr>file_key = fileKey, result_count = length ds,
                                advancement_count = w_advancementCount s + limit,
                                result_progress = of_nat (w_advancementCount s + limit)
                                                    / of_nat (length ds)\<rparr>\<rparr>"
  have step: "writerLoop (datasetService ds) statusAfter fileKey m cfg limit (length ds) s
      = writerLoop (datasetService ds) statusAfter fileKey m cfg limit (length ds) ?s1"
    by (subst writerLoop.simps) (simp add: lt page nc Let_def linesOf_def len mn)
  have ih: "writerLoop (datasetService ds) statusAfter fileKey m cfg limit (length ds) ?s1
      = Some \<lparr>stream_written =
                     w_written ?s1 @ linesOf m (List.take (Suc d * limit) (drop (w_offset ?s1) ds)),
                   stream_ended = True, file_deleted = True,
                   persisted_result =
                     Some \<lparr>file_key = fileKey, result_count = length ds,
                           advancement_count =
                             w_advancementCount ?s1
                               + length (List.take (Suc d * limit) (drop (w_offset ?s1) ds)),
                           result_progress =
                             of_nat (w_advancementCount ?s1
                                     + length (List.take (Suc d * limit) (drop (w_offset ?s1) ds)))
                               / of_nat (length ds)\<rparr>,
                   upload_awaited = False, descriptors = m\<rparr>"
  proof (rule Suc.IH)
    show "w_updates ?s1 + Suc d = k" using Suc.prems(1) by simp
    show "statusAfter k = CANCELED" by (rule Suc.prems(2))
    show "\<forall>j. w_updates ?s1 < j \<and> j < k \<longrightarrow> statusAfter j \<noteq> CANCELED"
      using Suc.prems(3) by simp
    show "w_offset ?s1 + d * limit < length ds" using Suc.prems(4) by (simp add: algebra_simps)
    show "w_products ?s1 = [] \<or> w_products ?s1 = List.take limit (drop (w_offset ?s1) ds)"
      by simp
  qed
  have split: "List.take (Suc (Suc d) * limit) (drop (w_offset s) ds)
      = ?page @ List.take (Suc d * limit) (drop (w_offset s + limit) ds)"
    using take_pages[of "Suc d" limit "drop (w_offset s) ds"] by (simp add: add.commute)
  show ?case
    unfolding step ih split
    by (simp add: linesOf_append len mn add.assoc)
qed

text \<open>
  Claim C6. Over a dataset the writer starts at \<open>skip + advancement_count\<close> and writes
  pages of \<open>take\<close> products. When the status read after page \<open>k\<close> is the first that
  reads canceled, the run returns with the header and the lines of the first \<open>k\<close> pages
  in the stream and nothing after them, the stream ended and the file deleted, the upload
  not awaited, and the job result as persisted for page \<open>k\<close>: its \<open>advancement_count\<close>
  is the earlier count plus the products of those \<open>k\<close> pages.
\<close>

theorem cancellation_stops_export:
  assumes "1 \<le> k"
    and "statusAfter k = CANCELED"
    and "\<forall>j. 1 \<le> j \<and> j < k \<longrightarrow> statusAfter j \<noteq> CANCELED"
    and "startOffset job + (k - 1) * limitOf job < length ds"
  shows "exportProcessJob (datasetService ds) statusAfter fileKey columnDescriptors job
           = Some \<lparr>stream_written =
                     fst (buildHeader (shape (job_context job)) columnDescriptors)
                     # linesOf (snd (buildHeader (shape (job_context job)) columnDescriptors))
                         (List.take (k * limitOf job) (drop (startOffset job) ds)),
                   stream_ended = True, file_deleted = True,
                   persisted_result =
                     Some \<lparr>file_key = fileKey, result_count = length ds,
                           advancement_count =
                             advancementOf job
                               + length (List.take (k * limitOf job) (drop (startOffset job) ds)),
                           result_progress =
                             of_nat (advancementOf job
                                     + length (List.take (k * limitOf job)
                                                 (drop (startOffset job) ds)))
                               / of_nat (length ds)\<rparr>,
                   upload_awaited = False,
                   descriptors = snd (buildHeader (shape (job_context job)) columnDescriptors)\<rparr>"
proof -
  obtain header m where hm: "buildHeader (shape (job_context job)) columnDescriptors = (header, m)"
    by (cases "buildHeader (shape (job_context job)) columnDescriptors")
  obtain d where d: "k = Suc d" using assms(1) by (cases k) simp_all
  let ?s = "\<lparr>w_offset = startOffset job,
             w_products = List.take (limitOf job) (drop (startOffset job) ds),
             w_advancementCount = advancementOf job, w_updates = 0,
             w_written = [header], w_result = job_result job\<rparr>"
  have run: "exportProcessJob (datasetService ds) statusAfter fileKey columnDescriptors job
      = writerLoop (datasetService ds) statusAfter fileKey m (configOf job) (limitOf job)
          (length ds) ?s"
    by (simp add: exportProcessJob_def hm Let_def datasetService_def datasetPage_list
          startOffset_def advancementOf_def limitOf_def)
  have "writerLoop (datasetService ds) statusAfter fileKey m (configOf job) (limitOf job)
          (length ds) ?s
      = Some \<lparr>stream_written =
                     w_written ?s @ linesOf m (List.take (Suc d * limitOf job) (drop (w_offset ?s) ds)),
                   stream_ended = True, file_deleted = True,
                   persisted_result =
                     Some \<lparr>file_key = fileKey, result_count = length ds,
                           advancement_count =
                             w_advancementCount ?s
                               + length (List.take (Suc d * limitOf job) (drop (w_offset ?s) ds)),
                           result_progress =
                             of_nat (w_advancementCount ?s
                                     + length (List.take (Suc d * limitOf job) (drop (w_offset ?s) ds)))
                               / of_nat (length ds)\<rparr>,
                   upload_awaited = False, descriptors = m\<rparr>"
  proof (rule writerLoop_cancel)
    show "w_updates ?s + Suc d = k" by (simp add: d)
    show "statusAfter k = CANCELED" by (rule assms(2))
    show "\<forall>j. w_updates ?s < j \<and> j < k \<longrightarrow> statusAfter j \<noteq> CANCELED"
      using assms(3) by simp
    show "w_offset ?s + d * limitOf job < length ds" using assms(4) by (simp add: d)
    show "w_products ?s = [] \<or> w_products ?s = List.take (limitOf job) (drop (w_offset ?s) ds)"
      by simp
  qed
  then show ?thesis unfolding run by (simp add: hm d)
qed

text \<open>
  The claim at three products written one per page, with the status canceled at the
  second check: the stream holds the header and the lines of the first two products, the
  file is deleted, the result records two products of three.
\<close>

theorem cancellation_stops_export_witness:
  "map_option stream_written
       (exportProcessJob (datasetService [productA, productB, productC])
          canceledAfterSecondPage ''product-export.csv'' staticColumns onePerPageJob)
     = Some [''Product Handle;Variant SKU'' @ NEWLINE,
             ''product-a;sku-a1'' @ NEWLINE, ''product-a;sku-a2'' @ NEWLINE,
             ''product-b;sku-b1'' @ NEWLINE] \<and>
   map_option file_deleted
       (exportProcessJob (datasetService [productA, productB, productC])
          canceledAfterSecondPage ''product-export.csv'' staticColumns onePerPageJob)
     = Some True \<and>
   map_option persisted_result
       (exportProcessJob (datasetService [productA, productB, productC])
          canceledAfterSecondPage ''product-export.csv'' staticColumns onePerPageJob)
     = Some (Some \<lparr>file_key = ''product-export.csv'', result_count = 3,
                    advancement_count = 2, result_progress = 2 / 3\<rparr>)"
proof -
  have h1: "(1::nat) \<le> 2"
    by simp
  have h2: "canceledAfterSecondPage 2 = CANCELED"
    by code_simp
  have h3: "\<forall>j. 1 \<le> j \<and> j < 2 \<longrightarrow> canceledAfterSecondPage j \<noteq> CANCELED"
    by (simp add: canceledAfterSecondPage_def)
  have h4: "startOffset onePerPageJob + (2 - 1) * limitOf onePerPageJob
      < length [productA, productB, productC]"
    by code_simp
  have e: "fst (buildHeader (shape (job_context onePerPageJob)) staticColumns)
        # linesOf (snd (buildHeader (shape (job_context onePerPageJob)) staticColumns))
            (List.take (2 * limitOf onePerPageJob)
               (drop (startOffset onePerPageJob) [productA, productB, productC]))
      = [''Product Handle;Variant SKU'' @ NEWLINE,
         ''product-a;sku-a1'' @ NEWLINE, ''product-a;sku-a2'' @ NEWLINE,
         ''product-b;sku-b1'' @ NEWLINE]"
    by code_simp
  have a: "advancementOf onePerPageJob
        + length (List.take (2 * limitOf onePerPageJob)
                    (drop (startOffset onePerPageJob) [productA, productB, productC])) = 2"
    by code_simp
  show ?thesis
    unfolding cancellation_stops_export[OF h1 h2 h3 h4] using e a by simp
qed

end
